theory Spec2Isabelle
  imports Main
begin

section \<open>Texts\<close>

text \<open>
  A Python \<open>str\<close> is modelled as a \<^typ>\<open>string\<close>, each \<^typ>\<open>char\<close> standing for the
  code point of the same number (U+0000 to U+00FF). The character classes below are the
  ones of Python's \<open>re\<close> module and of \<open>str.strip\<close> on that range: \<open>\s\<close> is
  tab, line feed, vertical tab, form feed, carriage return, the separators U+001C to
  U+001F, space, U+0085 and U+00A0; \<open>\d\<close> is the ten ASCII digits; under
  \<open>re.IGNORECASE\<close> an ASCII letter of the pattern matches its two cases.
\<close>

definition is_space :: "char \<Rightarrow> bool" where
  "is_space c = (of_char c \<in> set [9, 10, 11, 12, 13, 28, 29, 30, 31, 32, 133, 160 :: nat])"

definition is_digit :: "char \<Rightarrow> bool" where
  "is_digit c = (c \<in> set ''0123456789'')"

text \<open>\<open>int(match.group(2))\<close> on a one-digit group.\<close>

definition int_of_digit :: "char \<Rightarrow> nat" where
  "int_of_digit c = of_char c - 48"

definition lower :: "char \<Rightarrow> char" where
  "lower c = (case map_of (zip ''ABCDEFGHIJKLMNOPQRSTUVWXYZ'' ''abcdefghijklmnopqrstuvwxyz'') c of
                Some l \<Rightarrow> l | None \<Rightarrow> c)"

text \<open>\<open>str.strip()\<close>: whitespace removed at both ends.\<close>

definition strip :: "string \<Rightarrow> string" where
  "strip s = rev (dropWhile is_space (rev (dropWhile is_space s)))"

section \<open>Extraction of the mark out of the analysis\<close>

text \<open>
  The block \<open>EXTRACTION DE NOTE SUR 5\<close> stands four times in \<open>app.py\<close>, in
  \<open>soumettre_reponse\<close>, \<open>soumettre_sequentiel\<close>, \<open>soumettre_remediation\<close> and
  \<open>faire_remediation\<close>, with the same two regular expressions:
  \<^verbatim>\<open>
  etoiles = 0
  match = re.search(r"(Note|Score)\s*:\s*(\d)/5", analyse_ia, re.IGNORECASE)
  if match:
      etoiles = int(match.group(2))
  else:
      match = re.search(r"(Note|Score)\s*:\s*(\d)", analyse_ia, re.IGNORECASE)
      if match:
          etoiles = min(int(match.group(2)), 5)
      else:
          print("Impossible d'extraire la note de l'analyse IA")
  \<close>
  \<open>match_literal p s\<close> matches the literal \<open>p\<close> at the head of \<open>s\<close>, ignoring case, and
  returns the rest of \<open>s\<close>.
\<close>

fun match_literal :: "string \<Rightarrow> string \<Rightarrow> string option" where
  "match_literal [] s = Some s"
| "match_literal (p # ps) [] = None"
| "match_literal (p # ps) (c # cs) = (if lower c = lower p then match_literal ps cs else None)"

text \<open>The alternation \<open>(Note|Score)\<close>, first alternative first.\<close>

definition label_at :: "string \<Rightarrow> string option" where
  "label_at s = (case match_literal ''Note'' s of
                   Some r \<Rightarrow> Some r
                 | None \<Rightarrow> match_literal ''Score'' s)"

text \<open>
  \<open>(Note|Score)\s*:\s*(\d)\<close> anchored at the head of \<open>s\<close>: the digit of group 2 and the
  text after it. Each \<open>\s*\<close> is greedy, and giving characters back never helps here: the
  character that has to follow (a colon, a digit) is not whitespace, so the longest run
  of whitespace is the only one after which the match can go on.
\<close>

definition label_digit_at :: "string \<Rightarrow> (char \<times> string) option" where
  "label_digit_at s =
     (case label_at s of
        None \<Rightarrow> None
      | Some r1 \<Rightarrow>
          (case dropWhile is_space r1 of
             [] \<Rightarrow> None
           | c # r2 \<Rightarrow>
               if c \<noteq> CHR '':'' then None
               else (case dropWhile is_space r2 of
                       [] \<Rightarrow> None
                     | d # r3 \<Rightarrow> if is_digit d then Some (d, r3) else None)))"

text \<open>The first pattern, \<open>(Note|Score)\s*:\s*(\d)/5\<close>, anchored.\<close>

definition pattern_sur5_at :: "string \<Rightarrow> char option" where
  "pattern_sur5_at s =
     (case label_digit_at s of
        None \<Rightarrow> None
      | Some (d, r) \<Rightarrow> (case match_literal ''/5'' r of None \<Rightarrow> None | Some _ \<Rightarrow> Some d))"

text \<open>The fallback pattern, \<open>(Note|Score)\s*:\s*(\d)\<close>, anchored.\<close>

definition pattern_sans5_at :: "string \<Rightarrow> char option" where
  "pattern_sans5_at s = map_option fst (label_digit_at s)"

text \<open>\<open>re.search\<close>: the match at the leftmost position where the pattern matches.\<close>

fun re_search :: "(string \<Rightarrow> 'a option) \<Rightarrow> string \<Rightarrow> 'a option" where
  "re_search m [] = m []"
| "re_search m (c # cs) = (case m (c # cs) of Some r \<Rightarrow> Some r | None \<Rightarrow> re_search m cs)"

text \<open>
  The line the block prints on the console; nothing but \<open>etoiles\<close> is read by the code
  that follows the block.
\<close>

datatype console_note = Note_extraite nat | Note_extraite_sans_5 nat | Impossible_extraire

definition extraction :: "string \<Rightarrow> nat \<times> console_note" where
  "extraction analyse_ia =
     (case re_search pattern_sur5_at analyse_ia of
        Some d \<Rightarrow> (int_of_digit d, Note_extraite (int_of_digit d))
      | None \<Rightarrow>
          (case re_search pattern_sans5_at analyse_ia of
             Some d \<Rightarrow> (min (int_of_digit d) 5, Note_extraite_sans_5 (min (int_of_digit d) 5))
           | None \<Rightarrow> (0, Impossible_extraire)))"

text \<open>The value of \<open>etoiles\<close> after the block.\<close>

definition extract_score :: "string \<Rightarrow> nat" where
  "extract_score analyse_ia = fst (extraction analyse_ia)"

text \<open>The two spellings of the label, in any case.\<close>

definition is_label :: "string \<Rightarrow> bool" where
  "is_label l = (map lower l = ''note'' \<or> map lower l = ''score'')"


section \<open>The store, the session and the completion service\<close>

text \<open>
  The rows of the tables the routes below read and write (the classes of \<open>models.py\<close>,
  with the columns \<open>app.py\<close> uses). \<open>u_essai_est_expire\<close> is what the method
  \<open>essai_est_expire()\<close> of the user returns at the time of the request; a time stamp
  is a number.
\<close>

record user =
  u_id :: nat
  u_username :: string
  u_role :: string
  u_langue :: string
  u_statut_paiement :: string
  u_essai_est_expire :: bool
  u_niveau :: "string option"

record lecon =
  l_id :: nat
  l_titre_fr :: string

record exercice =
  e_id :: nat
  e_lecon_id :: "nat option"
  e_theme :: string
  e_question_fr :: string
  e_question_en :: string

record student_response =
  sr_id :: nat
  sr_user_id :: nat
  sr_exercice_id :: "nat option"
  sr_reponse_eleve :: string
  sr_analyse_ia :: string
  sr_etoiles :: nat
  sr_timestamp :: nat

record remediation_suggestion =
  rs_id :: nat
  rs_user_id :: nat
  rs_theme :: string
  rs_lecon :: string
  rs_message :: string
  rs_exercice_suggere :: string
  rs_statut :: string
  rs_timestamp :: nat
  rs_vue_par_eleve :: bool
  rs_notif_envoyee :: bool
  rs_reponse_eleve :: "string option"
  rs_analyse_ia :: "string option"
  rs_etoiles :: "nat option"

record db =
  users :: "user list"
  lecons :: "lecon list"
  exercices :: "exercice list"
  student_responses :: "student_response list"
  remediation_suggestions :: "remediation_suggestion list"

text \<open>The primary key a new row gets at the commit.\<close>

definition next_id :: "nat list \<Rightarrow> nat" where
  "next_id ids = Suc (fold max ids 0)"

text \<open>
  The keys of the Flask session the routes below touch. \<open>s_remediation_access\<close> is the
  dictionary \<open>soumettre_reponse\<close> stores under \<open>'remediation_access'\<close>; a flashed
  message is its category and its text.
\<close>

record remediation_access =
  ra_exercice_id :: nat
  ra_note :: nat
  ra_access_count :: nat
  ra_first_access :: nat

record session =
  s_eleve_id :: "nat option"
  s_enseignant_id :: "nat option"
  s_lang :: "string option"
  s_conversation :: "string list option"
  s_derniere_q_ia :: "string option"
  s_mode_examen :: "bool option"
  s_remediation_access :: "remediation_access option"
  s_flashes :: "(string \<times> string) list"

text \<open>The session after \<open>session.clear()\<close>.\<close>

definition session_vide :: session where
  "session_vide = \<lparr>s_eleve_id = None, s_enseignant_id = None, s_lang = None,
     s_conversation = None, s_derniere_q_ia = None, s_mode_examen = None,
     s_remediation_access = None, s_flashes = []\<rparr>"

definition flash :: "string \<Rightarrow> string \<Rightarrow> session \<Rightarrow> session" where
  "flash message category sess = sess\<lparr>s_flashes := s_flashes sess @ [(category, message)]\<rparr>"

text \<open>
  A prompt is kept as the template it is built from and the values the f-string
  interpolates; the first argument tells the English template from the French one
  (\<open>lang == "en"\<close>).
\<close>

datatype prompt =
    Prompt_correction bool string string
  | Prompt_correction_sequentiel bool string string
  | Prompt_correction_remediation bool string string
  | Prompt_evaluation_remediation bool string string
  | Prompt_remediation bool string string nat
  | Prompt_debut_conversation string string string bool string
  | Prompt_suite_conversation string string "string list" string string bool string

text \<open>The prompts of the remediation generator.\<close>

fun is_prompt_remediation :: "prompt \<Rightarrow> bool" where
  "is_prompt_remediation (Prompt_remediation en question reponse etoiles) = True"
| "is_prompt_remediation p = False"

text \<open>
  What lies outside the program: \<open>complete\<close> is \<open>client.chat.completions.create\<close>
  followed by \<open>.choices[0].message.content\<close>, \<open>Inl e\<close> when that raises the exception
  \<open>e\<close>; \<open>openai_client_error\<close> is the exception \<open>OpenAI(api_key=os.getenv(...))\<close>
  raises, if any; \<open>commit_error k\<close> is the exception the \<open>k\<close>-th \<open>db.session.commit()\<close>
  of the request raises, if any; \<open>utcnow\<close> is the clock.
\<close>

record env =
  complete :: "prompt \<Rightarrow> string + string"
  openai_client_error :: "string option"
  commit_error :: "nat \<Rightarrow> string option"
  utcnow :: nat

text \<open>
  The string literals of \<open>app.py\<close> that hold pictographs (code points beyond U+00FF):
  the table of \<open>get_message\<close>, the two labels of a transcript entry, the apology of
  \<open>enseignant_virtuel\<close> and the canned answers of the two conversation generators. The
  routes only concatenate and store them. A table with two entries is indexed by the
  test the source makes: \<open>lang == "en"\<close> for the two labels, \<open>lang == "fr"\<close> for the
  apology and the canned answers.
\<close>

record textes =
  get_message :: "string \<Rightarrow> string \<Rightarrow> string"
  enseignant_label :: "bool \<Rightarrow> string"
  eleve_label :: "bool \<Rightarrow> string"
  fallback_msg :: "bool \<Rightarrow> string"
  fallback_debut :: "bool \<Rightarrow> string \<Rightarrow> string \<Rightarrow> string"
  fallback_suite :: "bool \<Rightarrow> string \<Rightarrow> string"

text \<open>What a route answers, and what it printed that bears on errors and marks.\<close>

datatype corps =
    Donnees_manquantes "string list"
  | Eleve_non_trouve
  | Exercice_non_trouve
  | Eleve_lecon_ou_exercice_non_trouve
  | Eleve_introuvable
  | Acces_non_autorise
  | Reponse_vide
  | Erreur_IA string
  | Erreur_base_de_donnees string

datatype response =
    Http corps nat
  | Not_found
  | Unhandled_exception string
  | Redirect string
  | Template_exercice_detail student_response bool
  | Template_exercice_sequentiel "student_response option" bool bool int
  | Template_feedback_exercice string string nat
  | Template_remediation_non_validee
  | Template_faire_remediation remediation_suggestion
  | Template_valider_remediation remediation_suggestion
  | Template_remediations_eleve "remediation_suggestion list"
  | Template_enseignant_virtuel "string list" string

datatype console_line =
    Analyse_recue
  | Erreur_appel_ia string
  | Note console_note
  | Remediation_generee
  | Suggestion_sauvegardee
  | Acces_enseignant_virtuel_autorise nat
  | Erreur_generation_remediation string
  | Reponse_sauvegardee
  | Erreur_sauvegarde string
  | Erreur_generation_reponse string

record outcome =
  response :: response
  db_after :: db
  session_after :: session
  appels_ia :: "prompt list"
  console :: "console_line list"

text \<open>A return before any call of the completion service and before any write.\<close>

definition refuse :: "response \<Rightarrow> db \<Rightarrow> session \<Rightarrow> outcome" where
  "refuse r d sess = \<lparr>response = r, db_after = d, session_after = sess, appels_ia = [],
     console = []\<rparr>"

text \<open>Characters and words with accents.\<close>

definition e_aigu :: char where "e_aigu = CHR 0xE9"
definition e_grave :: char where "e_grave = CHR 0xE8"
definition E_aigu :: char where "E_aigu = CHR 0xC9"

definition role_eleve :: string where
  "role_eleve = [e_aigu, CHR ''l'', e_grave, CHR ''v'', CHR ''e'']"

definition mathematiques :: string where
  "mathematiques = ''math'' @ [e_aigu] @ ''matiques''"

definition general :: string where
  "general = ''G'' @ [e_aigu] @ ''n'' @ [e_aigu] @ ''ral''"

text \<open>\<open>str(n)\<close> of a natural number.\<close>

fun str_nat :: "nat \<Rightarrow> string" where
  "str_nat n = (if n < 10 then [''0123456789'' ! n]
                else str_nat (n div 10) @ [''0123456789'' ! (n mod 10)])"

declare str_nat.simps [simp del]

text \<open>
  The message of an automatic suggestion,
  \<open>f"Exercice de remediation propose automatiquement (note: {etoiles}/5)."\<close> with its
  accents.
\<close>

definition message_suggestion :: "nat \<Rightarrow> string" where
  "message_suggestion etoiles =
     ''Exercice de rem'' @ [e_aigu] @ ''diation propos'' @ [e_aigu]
       @ '' automatiquement (note: '' @ str_nat etoiles @ ''/5).''"

text \<open>
  Modelled from the spec: the defaults of the columns of \<open>RemediationSuggestion\<close>,
  which are declared in \<open>models.py\<close>. Following the data model of the specification
  a new suggestion has no student answer and no grading result yet, and is neither
  seen by the student nor notified to the teacher.
\<close>

definition suggestion_defaults :: remediation_suggestion where
  "suggestion_defaults =
     \<lparr>rs_id = 0, rs_user_id = 0, rs_theme = [], rs_lecon = [], rs_message = [],
      rs_exercice_suggere = [], rs_statut = [], rs_timestamp = 0, rs_vue_par_eleve = False,
      rs_notif_envoyee = False, rs_reponse_eleve = None, rs_analyse_ia = None,
      rs_etoiles = None\<rparr>"

text \<open>
  The row \<open>RemediationSuggestion(user_id=..., theme=..., lecon=..., message=...,
  exercice_suggere=..., statut="en_attente", timestamp=...)\<close> of both submission routes.
\<close>

definition nouvelle_suggestion ::
  "nat \<Rightarrow> nat \<Rightarrow> string \<Rightarrow> string \<Rightarrow> nat \<Rightarrow> string \<Rightarrow> nat \<Rightarrow> remediation_suggestion" where
  "nouvelle_suggestion new_id uid theme lecon_titre etoiles contenu ts =
     suggestion_defaults\<lparr>rs_id := new_id, rs_user_id := uid, rs_theme := theme,
       rs_lecon := lecon_titre, rs_message := message_suggestion etoiles,
       rs_exercice_suggere := contenu, rs_statut := ''en_attente'', rs_timestamp := ts\<rparr>"

definition add_suggestion :: "remediation_suggestion \<Rightarrow> db \<Rightarrow> db" where
  "add_suggestion r d = d\<lparr>remediation_suggestions := remediation_suggestions d @ [r]\<rparr>"

definition add_response :: "student_response \<Rightarrow> db \<Rightarrow> db" where
  "add_response r d = d\<lparr>student_responses := student_responses d @ [r]\<rparr>"

text \<open>\<open>exercice.lecon\<close>, the lesson the exercise belongs to.\<close>

definition lecon_of :: "db \<Rightarrow> exercice \<Rightarrow> lecon option" where
  "lecon_of d ex = (case e_lecon_id ex of
                      None \<Rightarrow> None
                    | Some lid \<Rightarrow> find (\<lambda>l. l_id l = lid) (lecons d))"

text \<open>
  The call of the grading completion in \<open>soumettre_reponse\<close> and
  \<open>soumettre_sequentiel\<close>: the exception is caught and its text becomes the analysis.
  \<^verbatim>\<open>
  try:
      chat_completion = client.chat.completions.create(...)
      analyse_ia = chat_completion.choices[0].message.content.strip()
  except Exception as e:
      analyse_ia = f"Erreur IA : {e}"
  \<close>
\<close>

definition appel_correction :: "env \<Rightarrow> prompt \<Rightarrow> string \<times> console_line" where
  "appel_correction ev p =
     (case complete ev p of
        Inr content \<Rightarrow> (strip content, Analyse_recue)
      | Inl e \<Rightarrow> (''Erreur IA : '' @ e, Erreur_appel_ia e))"


section \<open>Submission of an answer to one exercise\<close>

text \<open>
  The form of \<open>/soumettre-reponse\<close>; an identifier that is missing or empty is
  \<open>None\<close>.
\<close>

record form_reponse =
  fr_student_id :: "nat option"
  fr_exercice_id :: "nat option"
  fr_reponse_eleve :: string

text \<open>\<open>eleve.langue if hasattr(eleve, "langue") and eleve.langue == "en" else "fr"\<close>\<close>

definition langue_de :: "user \<Rightarrow> string" where
  "langue_de u = (if u_langue u = ''en'' then ''en'' else ''fr'')"

text \<open>
  The block \<open>GENERATION DE REMEDIATION si note < 3/5\<close> of \<open>soumettre_reponse\<close>: the
  pending store, the session, the prompts sent and the lines printed. The suggestion
  and the access grant are written inside the \<open>try\<close>, after the completion.
\<close>

definition remediation_simple ::
  "env \<Rightarrow> db \<Rightarrow> session \<Rightarrow> user \<Rightarrow> exercice \<Rightarrow> string \<Rightarrow> string \<Rightarrow> string \<Rightarrow> nat
     \<Rightarrow> db \<times> session \<times> prompt list \<times> console_line list" where
  "remediation_simple ev d sess eleve ex lang question reponse_eleve etoiles =
     (if etoiles < 3 then
        let p = Prompt_remediation (lang = ''en'') question reponse_eleve etoiles in
        (case complete ev p of
           Inr content \<Rightarrow>
             let sug = nouvelle_suggestion (next_id (map rs_id (remediation_suggestions d)))
                         (u_id eleve) (e_theme ex)
                         (case lecon_of d ex of Some l \<Rightarrow> l_titre_fr l | None \<Rightarrow> general)
                         etoiles (strip content) (utcnow ev);
                 acces = \<lparr>ra_exercice_id = e_id ex, ra_note = etoiles, ra_access_count = 0,
                           ra_first_access = utcnow ev\<rparr>
             in (add_suggestion sug d, sess\<lparr>s_remediation_access := Some acces\<rparr>, [p],
                 [Remediation_generee, Suggestion_sauvegardee,
                  Acces_enseignant_virtuel_autorise etoiles])
         | Inl e \<Rightarrow> (d, sess, [p], [Erreur_generation_remediation e]))
      else (d, sess, [], []))"

text \<open>
  \<open>soumettre_reponse\<close>, from the validation of the form to the page with the feedback.
  When the commit raises, nothing of the request is in the store.
\<close>

definition soumettre_reponse :: "env \<Rightarrow> db \<Rightarrow> session \<Rightarrow> form_reponse \<Rightarrow> outcome" where
  "soumettre_reponse ev d sess form =
     (let reponse_eleve = strip (fr_reponse_eleve form);
          missing_fields =
            (if fr_student_id form = None then [''student_id''] else [])
            @ (if fr_exercice_id form = None then [''exercice_id''] else [])
            @ (if reponse_eleve = [] then [''reponse_eleve''] else [])
      in if missing_fields \<noteq> [] then refuse (Http (Donnees_manquantes missing_fields) 400) d sess
      else
        (case find (\<lambda>u. Some (u_id u) = fr_student_id form) (users d) of
           None \<Rightarrow> refuse (Http Eleve_non_trouve 404) d sess
         | Some eleve \<Rightarrow>
        (case find (\<lambda>x. Some (e_id x) = fr_exercice_id form) (exercices d) of
           None \<Rightarrow> refuse (Http Exercice_non_trouve 404) d sess
         | Some ex \<Rightarrow>
             let lang = langue_de eleve;
                 question = (if lang = ''en'' then e_question_en ex else e_question_fr ex);
                 prompt = Prompt_correction (lang = ''en'') question reponse_eleve;
                 (analyse_ia, ligne_appel) = appel_correction ev prompt;
                 (etoiles, ligne_note) = extraction analyse_ia;
                 (d1, sess1, appels, lignes) =
                    remediation_simple ev d sess eleve ex lang question reponse_eleve etoiles;
                 nouvelle = \<lparr>sr_id = next_id (map sr_id (student_responses d1)),
                             sr_user_id = u_id eleve, sr_exercice_id = Some (e_id ex),
                             sr_reponse_eleve = reponse_eleve, sr_analyse_ia = analyse_ia,
                             sr_etoiles = etoiles, sr_timestamp = utcnow ev\<rparr>
             in (case commit_error ev 0 of
                   Some e \<Rightarrow>
                     \<lparr>response = Http (Erreur_base_de_donnees e) 500, db_after = d,
                      session_after = sess1, appels_ia = prompt # appels,
                      console = [ligne_appel, Note ligne_note] @ lignes @ [Erreur_sauvegarde e]\<rparr>
                 | None \<Rightarrow>
                     \<lparr>response = Template_exercice_detail nouvelle (etoiles < 3),
                      db_after = add_response nouvelle d1, session_after = sess1,
                      appels_ia = prompt # appels,
                      console = [ligne_appel, Note ligne_note] @ lignes @ [Reponse_sauvegardee]\<rparr>))))"

section \<open>Submission of an answer inside a sequence\<close>

text \<open>
  The form of \<open>/soumettre-sequentiel\<close>. \<open>fs_index\<close> is \<open>int(request.form.get("index", 0))\<close>;
  \<open>fs_lang\<close> and \<open>fs_action\<close> are \<open>None\<close> when the field is absent.
\<close>

record form_sequentiel =
  fs_username :: string
  fs_lang :: "string option"
  fs_lecon_id :: "nat option"
  fs_exercice_id :: "nat option"
  fs_reponse_eleve :: string
  fs_index :: int
  fs_action :: "string option"

text \<open>
  \<open>order_by(StudentResponse.timestamp.desc()).first()\<close>; among rows of one time stamp
  the first of the table.
\<close>

fun derniere_reponse :: "student_response list \<Rightarrow> student_response option" where
  "derniere_reponse [] = None"
| "derniere_reponse (r # rs) =
     (case derniere_reponse rs of
        None \<Rightarrow> Some r
      | Some r' \<Rightarrow> if sr_timestamp r < sr_timestamp r' then Some r' else Some r)"

text \<open>
  The end of \<open>soumettre_sequentiel\<close>: whether an exercise follows, and the page.
\<close>

definition page_sequentielle ::
  "db \<Rightarrow> form_sequentiel \<Rightarrow> student_response option \<Rightarrow> bool \<Rightarrow> response" where
  "page_sequentielle d form reponse show_feedback =
     (let total_exercices = length (filter (\<lambda>x. e_lecon_id x = fs_lecon_id form) (exercices d));
          next_index = fs_index form + 1
      in Template_exercice_sequentiel reponse show_feedback (next_index < int total_exercices)
           next_index)"

text \<open>
  The block \<open>REMEDIATION si note < 3/5\<close> of \<open>soumettre_sequentiel\<close>, which runs after
  the answer is committed. Here the \<open>try\<close> holds the completion alone: when it raises,
  the text of the exception becomes the exercise of the suggestion, which is created and
  committed all the same. The commit of the suggestion is outside any handler.
\<close>

definition erreur_remediation :: "string \<Rightarrow> string" where
  "erreur_remediation e =
     ''Erreur IA lors de la g'' @ [e_aigu] @ ''n'' @ [e_aigu] @ ''ration de la rem''
       @ [e_aigu] @ ''diation : '' @ e"

definition remediation_sequentielle ::
  "env \<Rightarrow> db \<Rightarrow> user \<Rightarrow> exercice \<Rightarrow> lecon \<Rightarrow> string \<Rightarrow> string \<Rightarrow> string \<Rightarrow> nat
     \<Rightarrow> (string + db) \<times> prompt list \<times> console_line list" where
  "remediation_sequentielle ev d eleve ex lec lang question reponse_eleve etoiles =
     (if etoiles < 3 then
        let p = Prompt_remediation (lang = ''en'') question reponse_eleve etoiles;
            (remediation_content, ligne) =
               (case complete ev p of
                  Inr content \<Rightarrow> (strip content, Remediation_generee)
                | Inl e \<Rightarrow> (erreur_remediation e, Erreur_generation_remediation e));
            sug = nouvelle_suggestion (next_id (map rs_id (remediation_suggestions d)))
                    (u_id eleve) (e_theme ex) (l_titre_fr lec) etoiles remediation_content
                    (utcnow ev)
        in (case commit_error ev 1 of
              Some e \<Rightarrow> (Inl e, [p], [ligne])
            | None \<Rightarrow> (Inr (add_suggestion sug d), [p], [ligne, Suggestion_sauvegardee]))
      else (Inr d, [], []))"

definition soumettre_sequentiel :: "env \<Rightarrow> db \<Rightarrow> session \<Rightarrow> form_sequentiel \<Rightarrow> outcome" where
  "soumettre_sequentiel ev d sess form =
     (let lang = (case fs_lang form of None \<Rightarrow> ''fr'' | Some l \<Rightarrow> l);
          reponse_eleve = strip (fs_reponse_eleve form);
          action = (case fs_action form of None \<Rightarrow> ''submit'' | Some a \<Rightarrow> a)
      in
        (case (find (\<lambda>u. u_username u = fs_username form) (users d),
               find (\<lambda>l. Some (l_id l) = fs_lecon_id form) (lecons d),
               find (\<lambda>x. Some (e_id x) = fs_exercice_id form) (exercices d)) of
           (Some eleve, Some lec, Some ex) \<Rightarrow>
             if action = ''submit'' \<and> reponse_eleve \<noteq> [] then
               let question = (if lang = ''en'' then e_question_en ex else e_question_fr ex);
                   prompt = Prompt_correction_sequentiel (lang = ''en'') question reponse_eleve;
                   (analyse_ia, ligne_appel) = appel_correction ev prompt;
                   (etoiles, ligne_note) = extraction analyse_ia;
                   nouvelle = \<lparr>sr_id = next_id (map sr_id (student_responses d)),
                               sr_user_id = u_id eleve, sr_exercice_id = Some (e_id ex),
                               sr_reponse_eleve = reponse_eleve, sr_analyse_ia = analyse_ia,
                               sr_etoiles = etoiles, sr_timestamp = utcnow ev\<rparr>
               in (case commit_error ev 0 of
                     Some e \<Rightarrow>
                       \<lparr>response = Http (Erreur_base_de_donnees e) 500, db_after = d,
                        session_after = sess, appels_ia = [prompt],
                        console = [ligne_appel, Note ligne_note, Erreur_sauvegarde e]\<rparr>
                   | None \<Rightarrow>
                       let d1 = add_response nouvelle d;
                           (res, appels, lignes) =
                              remediation_sequentielle ev d1 eleve ex lec lang question
                                reponse_eleve etoiles
                       in (case res of
                             Inl e \<Rightarrow>
                               \<lparr>response = Unhandled_exception e, db_after = d1,
                                session_after = sess, appels_ia = prompt # appels,
                                console = [ligne_appel, Note ligne_note, Reponse_sauvegardee]
                                            @ lignes\<rparr>
                           | Inr d2 \<Rightarrow>
                               \<lparr>response = page_sequentielle d2 form
                                             (find (\<lambda>r. sr_id r = sr_id nouvelle)
                                                (student_responses d2)) True,
                                db_after = d2, session_after = sess,
                                appels_ia = prompt # appels,
                                console = [ligne_appel, Note ligne_note, Reponse_sauvegardee]
                                            @ lignes\<rparr>))
             else
               refuse (page_sequentielle d form
                         (derniere_reponse
                            (filter (\<lambda>r. sr_user_id r = u_id eleve
                                          \<and> sr_exercice_id r = Some (e_id ex))
                               (student_responses d)))
                         False) d sess
         | _ \<Rightarrow> refuse (Http Eleve_lecon_ou_exercice_non_trouve 404) d sess))"


section \<open>The life of a remediation suggestion\<close>

datatype 'f requete = GET | POST 'f

text \<open>\<open>RemediationSuggestion.query.get_or_404(id)\<close> and the write to one row.\<close>

definition get_suggestion :: "db \<Rightarrow> nat \<Rightarrow> remediation_suggestion option" where
  "get_suggestion d rid = find (\<lambda>r. rs_id r = rid) (remediation_suggestions d)"

definition update_suggestion ::
  "nat \<Rightarrow> (remediation_suggestion \<Rightarrow> remediation_suggestion) \<Rightarrow> db \<Rightarrow> db" where
  "update_suggestion rid f d =
     d\<lparr>remediation_suggestions :=
          map (\<lambda>r. if rs_id r = rid then f r else r) (remediation_suggestions d)\<rparr>"

text \<open>
  \<open>valider_remediation\<close>, the teacher's validation. The form of the POST carries the
  message and the three parts of the exercise; the block of text is rebuilt from them
  in the language of the query string. The status is set to \<open>"valide"\<close> whatever it
  was. The GET renders the form for the suggestion.
\<close>

record form_validation =
  fv_message :: string
  fv_question :: string
  fv_reponse :: string
  fv_explication :: string

definition bloc_remediation :: "string \<Rightarrow> form_validation \<Rightarrow> string" where
  "bloc_remediation lang form =
     (if lang = ''en'' then
        ''Remediation:'' @ [CHR 0x0A] @ ''- Question: '' @ fv_question form
          @ [CHR 0x0A] @ ''- Expected answer: '' @ fv_reponse form
          @ [CHR 0x0A] @ ''- Explanation: '' @ fv_explication form
      else
        ''Rem'' @ [e_aigu] @ ''diation :'' @ [CHR 0x0A] @ ''- Question : '' @ fv_question form
          @ [CHR 0x0A] @ ''- R'' @ [e_aigu] @ ''ponse attendue : '' @ fv_reponse form
          @ [CHR 0x0A] @ ''- Explication : '' @ fv_explication form)"

definition valider_remediation ::
  "env \<Rightarrow> db \<Rightarrow> session \<Rightarrow> string option \<Rightarrow> nat \<Rightarrow> form_validation requete \<Rightarrow> outcome" where
  "valider_remediation ev d sess lang_arg remediation_id req =
     (if s_enseignant_id sess = None then refuse (Redirect ''login_enseignant'') d sess
      else
        let lang = (case lang_arg of None \<Rightarrow> ''fr'' | Some l \<Rightarrow> l) in
        (case get_suggestion d remediation_id of
           None \<Rightarrow> refuse Not_found d sess
         | Some suggestion \<Rightarrow>
             (case req of
                POST form \<Rightarrow>
                  (case commit_error ev 0 of
                     Some e \<Rightarrow> refuse (Unhandled_exception e) d sess
                   | None \<Rightarrow>
                       refuse (Redirect ''remediations_a_valider'')
                         (update_suggestion remediation_id
                            (\<lambda>r. r\<lparr>rs_message := fv_message form,
                                    rs_exercice_suggere := bloc_remediation lang form,
                                    rs_statut := ''valide''\<rparr>) d)
                         sess)
              | GET \<Rightarrow> refuse (Template_valider_remediation suggestion) d sess)))"

text \<open>
  \<open>faire_remediation\<close>, the student's attempt at \<open>/eleve/remediation/<id>\<close>: only a
  suggestion whose status is \<open>"valide"\<close> gets past the page \<open>remediation_non_validee\<close>.
  The form carries \<open>reponse_eleve\<close> and \<open>reponse\<close>; the question and the expected
  answer of the prompt are read off \<open>exercice_suggere\<close>, which the prompt keeps whole.
\<close>

record form_remediation =
  fm_reponse_eleve :: string
  fm_reponse :: string

definition faire_remediation ::
  "env \<Rightarrow> db \<Rightarrow> session \<Rightarrow> nat \<Rightarrow> form_remediation requete \<Rightarrow> outcome" where
  "faire_remediation ev d sess rid req =
     (case s_eleve_id sess of
        None \<Rightarrow> refuse (Redirect ''/login-eleve'') d sess
      | Some eleve_id \<Rightarrow>
     (case get_suggestion d rid of
        None \<Rightarrow> refuse Not_found d sess
      | Some remediation \<Rightarrow>
     (case find (\<lambda>u. u_id u = eleve_id) (users d) of
        None \<Rightarrow> refuse Not_found d sess
      | Some eleve \<Rightarrow>
          if rs_user_id remediation \<noteq> u_id eleve then refuse (Http Acces_non_autorise 403) d sess
          else if rs_statut remediation \<noteq> ''valide'' then
            refuse Template_remediation_non_validee d sess
          else
            (case req of
               GET \<Rightarrow> refuse (Template_faire_remediation remediation) d sess
             | POST form \<Rightarrow>
                 let lang = langue_de eleve;
                     reponse_texte = strip (if fm_reponse_eleve form \<noteq> [] then fm_reponse_eleve form
                                            else fm_reponse form)
                 in if reponse_texte = [] then refuse (Http Reponse_vide 400) d sess
                    else
                      let prompt = Prompt_evaluation_remediation (lang = ''en'')
                                     (rs_exercice_suggere remediation) reponse_texte
                      in (case complete ev prompt of
                            Inl e \<Rightarrow>
                              \<lparr>response = Http (Erreur_IA e) 500, db_after = d,
                               session_after = sess, appels_ia = [prompt], console = []\<rparr>
                          | Inr content \<Rightarrow>
                              let analyse_ia = strip content;
                                  (etoiles, ligne_note) = extraction analyse_ia;
                                  reponse = \<lparr>sr_id = next_id (map sr_id (student_responses d)),
                                             sr_user_id = u_id eleve, sr_exercice_id = None,
                                             sr_reponse_eleve = reponse_texte,
                                             sr_analyse_ia = analyse_ia, sr_etoiles = etoiles,
                                             sr_timestamp = utcnow ev\<rparr>;
                                  d1 = update_suggestion rid
                                         (\<lambda>r. r\<lparr>rs_reponse_eleve := Some reponse_texte,
                                                 rs_analyse_ia := Some analyse_ia,
                                                 rs_etoiles := Some etoiles,
                                                 rs_statut := (if 3 \<le> etoiles then ''reussie''
                                                               else ''en_attente'')\<rparr>)
                                         (add_response reponse d)
                              in (case commit_error ev 0 of
                                    Some e \<Rightarrow>
                                      \<lparr>response = Unhandled_exception e, db_after = d,
                                       session_after = sess, appels_ia = [prompt],
                                       console = [Note ligne_note]\<rparr>
                                  | None \<Rightarrow>
                                      \<lparr>response = Template_feedback_exercice reponse_texte
                                                    analyse_ia etoiles,
                                       db_after = d1, session_after = sess,
                                       appels_ia = [prompt],
                                       console = [Note ligne_note]\<rparr>))))))"

text \<open>
  \<open>soumettre_remediation\<close>, the second route that grades an attempt,
  \<open>/soumettre-remediation/<id>\<close>. It reads no session and tests no status. The answer is
  \<open>request.form.get("reponse_eleve") or request.form.get("reponse", "").strip()\<close>: the
  first field is not stripped. \<open>remediation.user\<close> is the row of the users the
  suggestion points to; were there none, the language would be French and
  \<open>user.id\<close> would raise after the completion.
\<close>

definition soumettre_remediation ::
  "env \<Rightarrow> db \<Rightarrow> session \<Rightarrow> nat \<Rightarrow> form_remediation \<Rightarrow> outcome" where
  "soumettre_remediation ev d sess remediation_id form =
     (let reponse_eleve = (if fm_reponse_eleve form \<noteq> [] then fm_reponse_eleve form
                           else strip (fm_reponse form))
      in
     (case get_suggestion d remediation_id of
        None \<Rightarrow> refuse Not_found d sess
      | Some remediation \<Rightarrow>
          if reponse_eleve = [] then refuse (Http Reponse_vide 400) d sess
          else
            let usr_opt = find (\<lambda>u. u_id u = rs_user_id remediation) (users d);
                enonce = rs_exercice_suggere remediation;
                lang = (case usr_opt of None \<Rightarrow> ''fr'' | Some usr \<Rightarrow> langue_de usr);
                prompt = Prompt_correction_remediation (lang = ''en'') enonce reponse_eleve
            in (case complete ev prompt of
                  Inl e \<Rightarrow>
                    \<lparr>response = Http (Erreur_IA e) 500, db_after = d, session_after = sess,
                     appels_ia = [prompt], console = []\<rparr>
                | Inr content \<Rightarrow>
                    let analyse_ia = strip content;
                        (etoiles, ligne_note) = extraction analyse_ia
                    in (case usr_opt of
                          None \<Rightarrow>
                            \<lparr>response = Unhandled_exception ''AttributeError'', db_after = d,
                             session_after = sess, appels_ia = [prompt],
                             console = [Note ligne_note]\<rparr>
                        | Some usr \<Rightarrow>
                            let new_response =
                                  \<lparr>sr_id = next_id (map sr_id (student_responses d)),
                                   sr_user_id = u_id usr, sr_exercice_id = None,
                                   sr_reponse_eleve = reponse_eleve,
                                   sr_analyse_ia = analyse_ia, sr_etoiles = etoiles,
                                   sr_timestamp = utcnow ev\<rparr>;
                                d1 = add_response new_response
                                       (update_suggestion remediation_id
                                          (\<lambda>r. r\<lparr>rs_statut := (if 3 \<le> etoiles then ''reussie''
                                                                  else ''en_attente'')\<rparr>) d)
                            in (case commit_error ev 0 of
                                  Some e \<Rightarrow>
                                    \<lparr>response = Unhandled_exception e, db_after = d,
                                     session_after = sess, appels_ia = [prompt],
                                     console = [Note ligne_note]\<rparr>
                                | None \<Rightarrow>
                                    \<lparr>response = Template_feedback_exercice reponse_eleve
                                                  analyse_ia etoiles,
                                     db_after = d1, session_after = sess,
                                     appels_ia = [prompt],
                                     console = [Note ligne_note]\<rparr>)))))"

text \<open>
  \<open>eleve_remediations\<close>, the student's list: the validated suggestions of the student,
  newest first, each marked as seen.
\<close>

definition a_marquer :: "user \<Rightarrow> remediation_suggestion \<Rightarrow> bool" where
  "a_marquer eleve r = (rs_user_id r = u_id eleve \<and> rs_statut r = ''valide'')"

definition marquer_vue :: "remediation_suggestion \<Rightarrow> remediation_suggestion" where
  "marquer_vue r = (if \<not> rs_vue_par_eleve r then r\<lparr>rs_vue_par_eleve := True\<rparr> else r)"

definition eleve_remediations :: "env \<Rightarrow> db \<Rightarrow> session \<Rightarrow> string \<Rightarrow> outcome" where
  "eleve_remediations ev d sess username =
     (case find (\<lambda>u. u_username u = username) (users d) of
        None \<Rightarrow> refuse (Http Eleve_introuvable 404) d sess
      | Some eleve \<Rightarrow>
          let d1 = d\<lparr>remediation_suggestions :=
                       map (\<lambda>r. if a_marquer eleve r then marquer_vue r else r)
                         (remediation_suggestions d)\<rparr>;
              remediations = rev (sort_key rs_timestamp
                                    (filter (a_marquer eleve) (remediation_suggestions d1)))
          in (case commit_error ev 0 of
                Some e \<Rightarrow> refuse (Unhandled_exception e) d sess
              | None \<Rightarrow> refuse (Template_remediations_eleve remediations) d1 sess))"


section \<open>The guided dialogue\<close>

text \<open>
  \<open>extraire_question\<close>: the patterns have the shape \<open>[Xx]word\s+(.*?)\?\<close> and are matched
  case-sensitively. A pattern is kept as the two spellings of its first letter and the
  rest of its word. After the word at least one whitespace character is needed; the
  lazy group then runs up to the first question mark and cannot cross a line feed.
  Giving whitespace back to the group never turns a failure into a match.
\<close>

definition match_exact :: "string \<Rightarrow> string \<Rightarrow> string option" where
  "match_exact p s = (if take (length p) s = p then Some (drop (length p) s) else None)"

definition groupe_question :: "string \<Rightarrow> string option" where
  "groupe_question s =
     (let g = takeWhile (\<lambda>c. c \<noteq> CHR ''?'' \<and> c \<noteq> CHR 0x0A) s
      in case drop (length g) s of
           [] \<Rightarrow> None
         | c # _ \<Rightarrow> if c = CHR ''?'' then Some g else None)"

definition question_at :: "string \<times> string \<Rightarrow> string \<Rightarrow> string option" where
  "question_at pat s =
     (case s of
        [] \<Rightarrow> None
      | c # cs \<Rightarrow>
          if c \<in> set (fst pat) then
            (case match_exact (snd pat) cs of
               None \<Rightarrow> None
             | Some r \<Rightarrow>
                 (case r of
                    [] \<Rightarrow> None
                  | w # _ \<Rightarrow> if is_space w then groupe_question (dropWhile is_space r)
                             else None))
          else None)"

definition patterns_fr :: "(string \<times> string) list" where
  "patterns_fr =
     [(''Pp'', ''eux-tu''), (''Qq'', ''u'' @ [CHR 0x27] @ ''est-ce que''), (''Cc'', ''alcule''),
      (''Tt'', ''rouve''), (''Dd'', ''is-moi''), (''Qq'', ''uelle''), (''Cc'', ''ombien''),
      (''Cc'', ''omment''), (''Pp'', ''ourquoi''), ([E_aigu, e_aigu], ''cris''),
      (''Aa'', ''nalyse''), (''Ee'', ''xplique''), (''Rr'', ''eformule'')]"

definition patterns_en :: "(string \<times> string) list" where
  "patterns_en =
     [(''Cc'', ''an you''), (''Ww'', ''hat is''), (''Cc'', ''alculate''), (''Ff'', ''ind''),
      (''Tt'', ''ell me''), (''Ww'', ''hich''), (''Hh'', ''ow many''), (''Hh'', ''ow''),
      (''Ww'', ''hy''), (''Ww'', ''rite''), (''Aa'', ''nalyze''), (''Ee'', ''xplain''),
      (''Dd'', ''escribe''), (''Rr'', ''ephrase'')]"

fun premiere_question :: "(string \<times> string) list \<Rightarrow> string \<Rightarrow> string option" where
  "premiere_question [] reponse = None"
| "premiere_question (p # ps) reponse =
     (case re_search (question_at p) reponse of
        None \<Rightarrow> premiere_question ps reponse
      | Some g \<Rightarrow>
          let question = strip g
          in if 5 < length question then Some question else premiere_question ps reponse)"

definition extraire_question :: "string \<Rightarrow> string \<Rightarrow> string option" where
  "extraire_question reponse lang =
     premiere_question (if lang = ''fr'' then patterns_fr else patterns_en) reponse"

text \<open>
  The two generators. Each builds its client first, outside its \<open>try\<close>, so that a
  failure there is raised to the caller; a failure of the completion itself is caught
  and answered by the canned text. \<open>generer_suite_conversation\<close> puts the last ten
  entries of the history in its prompt.
\<close>

definition generer_debut_conversation ::
  "textes \<Rightarrow> env \<Rightarrow> string \<Rightarrow> string \<Rightarrow> string \<Rightarrow> bool \<Rightarrow> string
     \<Rightarrow> (string + string) \<times> prompt list" where
  "generer_debut_conversation tx ev question niveau langue mode_examen matiere =
     (case openai_client_error ev of
        Some e \<Rightarrow> (Inl e, [])
      | None \<Rightarrow>
          let p = Prompt_debut_conversation question niveau langue mode_examen matiere
          in (case complete ev p of
                Inr content \<Rightarrow> (Inr (strip content), [p])
              | Inl e \<Rightarrow> (Inr (fallback_debut tx (langue = ''fr'') matiere question), [p])))"

definition generer_suite_conversation ::
  "textes \<Rightarrow> env \<Rightarrow> string \<Rightarrow> string \<Rightarrow> string list \<Rightarrow> string \<Rightarrow> string \<Rightarrow> bool \<Rightarrow> string
     \<Rightarrow> (string + string) \<times> prompt list" where
  "generer_suite_conversation tx ev derniere_q reponse historique niveau langue mode_examen
      matiere =
     (case openai_client_error ev of
        Some e \<Rightarrow> (Inl e, [])
      | None \<Rightarrow>
          let p = Prompt_suite_conversation derniere_q reponse
                    (drop (length historique - 10) historique) niveau langue mode_examen matiere
          in (case complete ev p of
                Inr content \<Rightarrow> (Inr (strip content), [p])
              | Inl e \<Rightarrow> (Inr (fallback_suite tx (langue = ''fr'') matiere), [p])))"

text \<open>The form of \<open>/enseignant-virtuel\<close>.\<close>

record form_question =
  fq_question :: string
  fq_matiere :: string

text \<open>
  One turn of the dialogue, the body of \<open>if question and len(question) >= 3\<close>. The
  welcome is put before the first message of a new conversation, then the student's
  message. On the success path the answer is appended, the list is cut to its last 15
  entries and stored, and the question the answer asks is kept for the next turn. When
  a generator raises, the handler appends the apology to the list as it is and stores
  it.
\<close>

definition tour_de_dialogue ::
  "textes \<Rightarrow> env \<Rightarrow> session \<Rightarrow> user \<Rightarrow> string \<Rightarrow> string \<Rightarrow> string
     \<Rightarrow> session \<times> prompt list \<times> console_line list" where
  "tour_de_dialogue tx ev sess eleve lang question matiere =
     (let conversation = (case s_conversation sess of None \<Rightarrow> [] | Some c \<Rightarrow> c);
          derniere_q_ia = s_derniere_q_ia sess;
          conversation1 =
            (if conversation = [] then
               [enseignant_label tx (lang = ''en'') @ '' ''
                  @ get_message tx ''bienvenue_enseignant'' lang]
             else conversation);
          conversation2 = conversation1 @ [eleve_label tx (lang = ''en'') @ '' '' @ question];
          niveau = (case u_niveau eleve of
                      Some n \<Rightarrow> n
                    | None \<Rightarrow> if lang = ''en'' then ''6th grade'' else ''6'' @ [e_grave] @ ''me'');
          mode_examen = (case s_mode_examen sess of None \<Rightarrow> False | Some b \<Rightarrow> b);
          derniere_q = (case derniere_q_ia of
                          None \<Rightarrow> None
                        | Some q \<Rightarrow> if q = [] then None else Some q);
          (res, appels) =
            (case derniere_q of
               Some q \<Rightarrow>
                 generer_suite_conversation tx ev q question conversation2 niveau lang
                   mode_examen matiere
             | None \<Rightarrow>
                 generer_debut_conversation tx ev question niveau lang mode_examen matiere)
      in case res of
           Inr reponse \<Rightarrow>
             let sess1 = (if derniere_q \<noteq> None then sess\<lparr>s_derniere_q_ia := None\<rparr>
                          else sess);
                 conversation3 =
                   conversation2 @ [enseignant_label tx (lang = ''en'') @ '' '' @ reponse];
                 conversation4 =
                   (if 15 < length conversation3
                    then drop (length conversation3 - 15) conversation3
                    else conversation3);
                 sess2 = sess1\<lparr>s_conversation := Some conversation4\<rparr>;
                 sess3 = (case extraire_question reponse lang of
                            Some nouvelle_q \<Rightarrow> sess2\<lparr>s_derniere_q_ia := Some nouvelle_q\<rparr>
                          | None \<Rightarrow> sess2)
             in (flash (get_message tx ''je_te_guide'' lang) ''success'' sess3, appels, [])
         | Inl e \<Rightarrow>
             let conversation3 =
                   conversation2
                     @ [enseignant_label tx (lang = ''en'') @ '' '' @ fallback_msg tx (lang = ''fr'')];
                 sess1 = sess\<lparr>s_conversation := Some conversation3\<rparr>
             in (flash (get_message tx ''erreur_traitement'' lang) ''warning'' sess1, appels,
                 [Erreur_generation_reponse e]))"

text \<open>
  \<open>enseignant_virtuel\<close>. The access test reads the trial and the payment status of the
  student and nothing else; a student it turns away loses the whole session.
\<close>

definition enseignant_virtuel ::
  "textes \<Rightarrow> env \<Rightarrow> db \<Rightarrow> session \<Rightarrow> form_question requete \<Rightarrow> outcome" where
  "enseignant_virtuel tx ev d sess req =
     (case s_eleve_id sess of
        None \<Rightarrow> refuse (Redirect ''login_eleve'') d sess
      | Some eleve_id \<Rightarrow>
     (case find (\<lambda>u. u_id u = eleve_id) (users d) of
        None \<Rightarrow> refuse (Redirect ''login_eleve'') d sess
      | Some eleve \<Rightarrow>
          if u_role eleve \<noteq> role_eleve then refuse (Redirect ''login_eleve'') d sess
          else
            let lang = (case s_lang sess of None \<Rightarrow> ''fr'' | Some l \<Rightarrow> l) in
            if u_essai_est_expire eleve \<and> u_statut_paiement eleve \<noteq> ''paye'' then
              refuse (Redirect ''login_eleve'') d
                (flash (get_message tx ''essai_termine'' lang) ''error'' session_vide)
            else
              let sess1 = (if s_conversation sess = None then sess\<lparr>s_conversation := Some []\<rparr>
                           else sess);
                  matiere0 = (if lang = ''fr'' then mathematiques else ''mathematics'');
                  (matiere, sess2, appels, lignes) =
                    (case req of
                       GET \<Rightarrow> (matiere0, sess1, [], [])
                     | POST form \<Rightarrow>
                         let question = strip (fq_question form);
                             matiere = (if fq_matiere form \<noteq> [] then fq_matiere form
                                        else matiere0)
                         in if question \<noteq> [] \<and> 3 \<le> length question then
                              let (s', a, l) =
                                    tour_de_dialogue tx ev sess1 eleve lang question matiere
                              in (matiere, s', a, l)
                            else (matiere, sess1, [], []))
              in \<lparr>response = Template_enseignant_virtuel
                                (case s_conversation sess2 of None \<Rightarrow> [] | Some c \<Rightarrow> c) matiere,
                   db_after = d, session_after = sess2, appels_ia = appels,
                   console = lignes\<rparr>))"




section \<open>A small school\<close>

text \<open>
  The data of the examples: Lea, whose free trial is over and who has not paid, Noe,
  whose trial runs, one lesson with one exercise, and a teacher's session.
\<close>

definition lea :: user where
  "lea = \<lparr>u_id = 1, u_username = ''lea'', u_role = role_eleve, u_langue = ''fr'',
           u_statut_paiement = ''essai_gratuit'', u_essai_est_expire = True, u_niveau = None\<rparr>"

definition noe :: user where
  "noe = \<lparr>u_id = 2, u_username = ''noe'', u_role = role_eleve, u_langue = ''fr'',
           u_statut_paiement = ''essai_gratuit'', u_essai_est_expire = False, u_niveau = None\<rparr>"

definition ecole :: db where
  "ecole =
     \<lparr>users = [lea, noe], lecons = [\<lparr>l_id = 1, l_titre_fr = ''Fractions''\<rparr>],
      exercices = [\<lparr>e_id = 1, e_lecon_id = Some 1, e_theme = ''Calcul'',
                    e_question_fr = ''1/2 + 1/3'', e_question_en = ''1/2 + 1/3''\<rparr>],
      student_responses = [], remediation_suggestions = []\<rparr>"

definition session_de :: "nat \<Rightarrow> session" where
  "session_de uid = session_vide\<lparr>s_eleve_id := Some uid\<rparr>"

definition session_enseignant :: session where
  "session_enseignant = session_vide\<lparr>s_enseignant_id := Some 1\<rparr>"

text \<open>
  A completion service that answers every grading prompt with \<open>correction\<close> and every
  remediation prompt with \<open>remediation\<close>; the store commits.
\<close>

definition service :: "string + string \<Rightarrow> string + string \<Rightarrow> env" where
  "service correction remediation =
     \<lparr>complete = (\<lambda>p. if is_prompt_remediation p then remediation else correction),
      openai_client_error = None, commit_error = (\<lambda>k. None), utcnow = 100\<rparr>"

definition formulaire_lea :: form_reponse where
  "formulaire_lea =
     \<lparr>fr_student_id = Some 1, fr_exercice_id = Some 1, fr_reponse_eleve = ''2/5''\<rparr>"

definition formulaire_sequentiel_lea :: form_sequentiel where
  "formulaire_sequentiel_lea =
     \<lparr>fs_username = ''lea'', fs_lang = None, fs_lecon_id = Some 1, fs_exercice_id = Some 1,
      fs_reponse_eleve = ''2/5'', fs_index = 0, fs_action = None\<rparr>"

text \<open>Three suggestions: two of Lea, one of them succeeded, and one of Noe.\<close>

definition suggestion_exemple :: "nat \<Rightarrow> nat \<Rightarrow> string \<Rightarrow> remediation_suggestion" where
  "suggestion_exemple sid uid statut =
     suggestion_defaults\<lparr>rs_id := sid, rs_user_id := uid, rs_theme := ''Calcul'',
       rs_lecon := ''Fractions'', rs_message := ''A revoir'',
       rs_exercice_suggere := ''Question : 1/4 + 1/4'', rs_statut := statut,
       rs_timestamp := 50 + sid\<rparr>"

definition ecole_remediations :: db where
  "ecole_remediations =
     ecole\<lparr>remediation_suggestions :=
              [suggestion_exemple 1 1 ''valide'', suggestion_exemple 2 1 ''reussie'',
               suggestion_exemple 3 2 ''valide'']\<rparr>"

definition formulaire_validation :: form_validation where
  "formulaire_validation =
     \<lparr>fv_message = ''Bon courage'', fv_question = ''1/4 + 1/4'', fv_reponse = ''1/2'',
      fv_explication = ''Meme denominateur''\<rparr>"

text \<open>
  The tables of texts with their pictographs left out, and a dialogue of several
  questions in a row, each put through \<open>enseignant_virtuel\<close> on the session the turn
  before has left.
\<close>

definition textes_exemple :: textes where
  "textes_exemple =
     \<lparr>get_message = (\<lambda>key lang. key),
      enseignant_label = (\<lambda>en. if en then ''Teacher:'' else ''Enseignant:''),
      eleve_label = (\<lambda>en. if en then ''Student:'' else ''Eleve:''),
      fallback_msg = (\<lambda>fr. if fr then ''Je suis desole'' else ''I am sorry''),
      fallback_debut = (\<lambda>fr matiere question. ''Peux-tu reformuler ce probleme ?''),
      fallback_suite = (\<lambda>fr matiere. ''Quelle est la prochaine etape ?'')\<rparr>"

fun dialogue :: "textes \<Rightarrow> env \<Rightarrow> db \<Rightarrow> string list \<Rightarrow> session \<Rightarrow> session" where
  "dialogue tx ev d [] sess = sess"
| "dialogue tx ev d (q # qs) sess =
     dialogue tx ev d qs
       (session_after
          (enseignant_virtuel tx ev d sess (POST \<lparr>fq_question = q, fq_matiere = []\<rparr>)))"

section \<open>Properties of the extraction\<close>

text \<open>
  The anchored matcher agrees with the regular expression read as a language: it
  succeeds exactly on a label, whitespace, a colon, whitespace and a digit, and
  \<open>re_search\<close> returns the match of the leftmost position that has one.
\<close>

lemma is_digit_cases: "is_digit d \<Longrightarrow> d = CHR ''0'' \<or> d = CHR ''1'' \<or> d = CHR ''2'' \<or> d = CHR ''3'' \<or> d = CHR ''4''
   \<or> d = CHR ''5'' \<or> d = CHR ''6'' \<or> d = CHR ''7'' \<or> d = CHR ''8'' \<or> d = CHR ''9''"
  by (simp add: is_digit_def)

lemma lower_digit: "is_digit d \<Longrightarrow> lower d = d"
  by (drule is_digit_cases) (elim disjE; simp add: lower_def)

lemma digit_not_space: "is_digit d \<Longrightarrow> \<not> is_space d"
  by (drule is_digit_cases) (elim disjE; simp add: is_space_def)

lemma colon_not_space: "\<not> is_space (CHR '':'')"
  by (simp add: is_space_def)

lemma match_literal_append:
  "map lower l = map lower p \<Longrightarrow> match_literal p (l @ r) = Some r"
proof (induction p arbitrary: l)
  case Nil
  then show ?case by simp
next
  case (Cons a p)
  then obtain c cs where l: "l = c # cs" by (cases l) auto
  with Cons show ?case by simp
qed

lemma match_literal_sound:
  "match_literal p s = Some r \<Longrightarrow> \<exists>l. s = l @ r \<and> map lower l = map lower p"
proof (induction p s rule: match_literal.induct)
  case (1 s)
  then show ?case by simp
next
  case (2 p ps)
  then show ?case by simp
next
  case (3 p ps c cs)
  then have eq: "lower c = lower p" and m: "match_literal ps cs = Some r"
    by (auto split: if_splits)
  from 3 eq m obtain l where "cs = l @ r" "map lower l = map lower ps" by auto
  with eq have "c # cs = (c # l) @ r \<and> map lower (c # l) = map lower (p # ps)" by simp
  then show ?case by blast
qed

lemma lower_Note: "map lower ''Note'' = ''note''" by (simp add: lower_def)
lemma lower_Score: "map lower ''Score'' = ''score''" by (simp add: lower_def)

lemma lower_N: "lower (CHR ''N'') = CHR ''n''" by (simp add: lower_def)

lemma label_at_append: "is_label l \<Longrightarrow> label_at (l @ r) = Some r"
proof -
  assume "is_label l"
  then consider (n) "map lower l = ''note''" | (s) "map lower l = ''score''"
    by (auto simp: is_label_def)
  then show ?thesis
  proof cases
    case n
    then have "match_literal ''Note'' (l @ r) = Some r"
      by (intro match_literal_append) (simp only: lower_Note)
    then show ?thesis by (simp add: label_at_def)
  next
    case s
    then obtain c cs where l: "l = c # cs" and c: "lower c = CHR ''s''" by (cases l) auto
    have no: "match_literal ''Note'' (l @ r) = None"
      using l c by (simp add: lower_N)
    have "match_literal ''Score'' (l @ r) = Some r"
      using s by (intro match_literal_append) (simp only: lower_Score)
    with no show ?thesis by (simp add: label_at_def)
  qed
qed

lemma label_at_sound:
  assumes "label_at s = Some r"
  shows "\<exists>l. s = l @ r \<and> is_label l"
proof (cases "match_literal ''Note'' s")
  case None
  with assms have "match_literal ''Score'' s = Some r" by (simp add: label_at_def)
  from match_literal_sound [OF this] obtain l where l: "s = l @ r" "map lower l = map lower ''Score''"
    by blast
  from l(2) have "map lower l = ''score''" by (simp only: lower_Score)
  then have "is_label l" unfolding is_label_def by (rule disjI2)
  with l(1) show ?thesis by (intro exI conjI)
next
  case (Some a)
  with assms have "match_literal ''Note'' s = Some r" by (simp add: label_at_def)
  from match_literal_sound [OF this] obtain l where l: "s = l @ r" "map lower l = map lower ''Note''"
    by blast
  from l(2) have "map lower l = ''note''" by (simp only: lower_Note)
  then have "is_label l" unfolding is_label_def by (rule disjI1)
  with l(1) show ?thesis by (intro exI conjI)
qed

lemma dropWhile_spaces:
  "list_all is_space ws \<Longrightarrow> \<not> is_space c \<Longrightarrow> dropWhile is_space (ws @ c # r) = c # r"
  by (induction ws) auto

lemma dropWhile_split:
  "dropWhile is_space s = c # r \<Longrightarrow> \<exists>ws. s = ws @ c # r \<and> list_all is_space ws \<and> \<not> is_space c"
proof -
  assume a: "dropWhile is_space s = c # r"
  have "s = takeWhile is_space s @ dropWhile is_space s" by simp
  moreover have "list_all is_space (takeWhile is_space s)"
    by (simp add: list_all_iff) (meson set_takeWhileD)
  moreover have "\<not> is_space c" using a by (metis hd_dropWhile list.distinct(1) list.sel(1))
  ultimately show ?thesis using a by metis
qed

lemma label_digit_at_complete:
  assumes "is_label l" "list_all is_space ws1" "list_all is_space ws2" "is_digit d"
  shows "label_digit_at (l @ ws1 @ '':'' @ ws2 @ d # r) = Some (d, r)"
proof -
  have 1: "dropWhile is_space (ws1 @ CHR '':'' # ws2 @ d # r) = CHR '':'' # ws2 @ d # r"
    by (rule dropWhile_spaces [OF assms(2) colon_not_space])
  have 2: "dropWhile is_space (ws2 @ d # r) = d # r"
    by (rule dropWhile_spaces [OF assms(3) digit_not_space [OF assms(4)]])
  show ?thesis
    by (simp add: label_digit_at_def label_at_append [OF assms(1)] 1 2 assms(4))
qed

lemma label_digit_at_sound:
  assumes "label_digit_at s = Some (d, r)"
  shows "\<exists>l ws1 ws2. s = l @ ws1 @ '':'' @ ws2 @ d # r \<and> is_label l
           \<and> list_all is_space ws1 \<and> list_all is_space ws2 \<and> is_digit d"
proof -
  from assms obtain r1 r2 where l: "label_at s = Some r1"
    and c: "dropWhile is_space r1 = CHR '':'' # r2"
    and d: "dropWhile is_space r2 = d # r" and dd: "is_digit d"
    by (auto simp: label_digit_at_def split: option.splits list.splits if_splits)
  from label_at_sound [OF l] obtain lb where "s = lb @ r1" "is_label lb" by blast
  moreover from dropWhile_split [OF c] obtain ws1 where "r1 = ws1 @ CHR '':'' # r2" "list_all is_space ws1" by blast
  moreover from dropWhile_split [OF d] obtain ws2 where "r2 = ws2 @ d # r" "list_all is_space ws2" by blast
  ultimately have "s = lb @ ws1 @ '':'' @ ws2 @ d # r \<and> is_label lb
           \<and> list_all is_space ws1 \<and> list_all is_space ws2 \<and> is_digit d"
    using dd by simp
  then show ?thesis by blast
qed

lemma sur5_imp_sans5: "pattern_sur5_at s = Some d \<Longrightarrow> pattern_sans5_at s = Some d"
  by (auto simp: pattern_sur5_at_def pattern_sans5_at_def split: option.splits)

lemma re_search_None_iff:
  "re_search m t = None \<longleftrightarrow> (\<forall>i\<le>length t. m (drop i t) = None)"
proof (induction t)
  case Nil
  then show ?case by simp
next
  case (Cons c cs)
  show ?case
  proof
    assume a: "re_search m (c # cs) = None"
    then have h: "m (c # cs) = None" and t: "re_search m cs = None"
      by (auto split: option.splits)
    show "\<forall>i\<le>length (c # cs). m (drop i (c # cs)) = None"
    proof (intro allI impI)
      fix i assume "i \<le> length (c # cs)"
      then show "m (drop i (c # cs)) = None"
        using h t Cons.IH by (cases i) auto
    qed
  next
    assume a: "\<forall>i\<le>length (c # cs). m (drop i (c # cs)) = None"
    then have "m (drop 0 (c # cs)) = None" by blast
    moreover have "\<forall>i\<le>length cs. m (drop i cs) = None"
    proof (intro allI impI)
      fix i assume "i \<le> length cs"
      then have "m (drop (Suc i) (c # cs)) = None" using a by (metis Suc_le_mono length_Cons)
      then show "m (drop i cs) = None" by simp
    qed
    ultimately show "re_search m (c # cs) = None" using Cons.IH by simp
  qed
qed

lemma re_search_here: "m s = Some r \<Longrightarrow> re_search m s = Some r"
  by (cases s) auto

lemma re_search_leftmost:
  "(\<forall>i<length pre. m (drop i (pre @ s)) = None) \<Longrightarrow> m s = Some r
     \<Longrightarrow> re_search m (pre @ s) = Some r"
proof (induction pre)
  case Nil
  then show ?case by (simp add: re_search_here)
next
  case (Cons c pre)
  have "m (drop 0 ((c # pre) @ s)) = None" using Cons.prems(1) by (metis length_greater_0_conv list.distinct(1))
  moreover have "\<forall>i<length pre. m (drop i (pre @ s)) = None"
  proof (intro allI impI)
    fix i assume "i < length pre"
    then have "m (drop (Suc i) ((c # pre) @ s)) = None" using Cons.prems(1) by (metis Suc_less_eq length_Cons)
    then show "m (drop i (pre @ s)) = None" by simp
  qed
  ultimately show ?case using Cons by simp
qed

lemma re_search_sur5_None:
  "re_search pattern_sans5_at t = None \<Longrightarrow> re_search pattern_sur5_at t = None"
  unfolding re_search_None_iff
  by (metis sur5_imp_sans5 option.exhaust option.distinct(1))

lemma sur5_two_digits:
  assumes "is_label l" "list_all is_space ws1" "list_all is_space ws2" "is_digit d1" "is_digit d2"
  shows "pattern_sur5_at (l @ ws1 @ '':'' @ ws2 @ d1 # d2 # r) = None"
proof -
  have "lower d2 \<noteq> lower (CHR ''/'')"
    using assms(5) by (drule_tac is_digit_cases) (elim disjE; simp add: lower_def)
  then have "match_literal ''/5'' (d2 # r) = None" by simp
  then show ?thesis
    using label_digit_at_complete [OF assms(1-4), of "d2 # r"]
    by (simp add: pattern_sur5_at_def)
qed

section \<open>Properties of the store and of the two submission routes\<close>

text \<open>
  A new primary key is fresh, so the row a route has just added is the one found under
  its key. Each submission route, on every submission it grades and whenever it answers
  with its page of feedback, has called the remediation generator once if the mark is
  below 3 and not at all otherwise.
\<close>

lemma fold_max_ge: "a \<le> fold max ids (a::nat)"
proof (induction ids arbitrary: a)
  case Nil
  then show ?case by simp
next
  case (Cons x xs)
  have "max x a \<le> fold max xs (max x a)" by (rule Cons.IH)
  then show ?case by simp
qed

lemma fold_max_mem: "x \<in> set ids \<Longrightarrow> x \<le> fold max ids (a::nat)"
proof (induction ids arbitrary: a)
  case Nil
  then show ?case by simp
next
  case (Cons y ys)
  show ?case
  proof (cases "x = y")
    case True
    have "max y a \<le> fold max ys (max y a)" by (rule fold_max_ge)
    with True show ?thesis by simp
  next
    case False
    with Cons.prems have "x \<in> set ys" by simp
    from Cons.IH [OF this] show ?thesis by simp
  qed
qed

lemma next_id_fresh: "x \<in> set ids \<Longrightarrow> x \<noteq> next_id ids"
  using fold_max_mem [of x ids 0] by (auto simp: next_id_def)

lemma find_new_row:
  assumes "sr_id n = next_id (map sr_id rows)"
  shows "find (\<lambda>r. sr_id r = sr_id n) (rows @ [n]) = Some n"
proof -
  have "\<forall>r\<in>set rows. sr_id r \<noteq> sr_id n"
    using next_id_fresh [of _ "map sr_id rows"] assms by auto
  then show ?thesis by (induction rows) auto
qed

lemma remediation_simple_appels:
  "length (filter is_prompt_remediation
      (fst (snd (snd (remediation_simple ev d sess eleve ex lang q rep n)))))
     = (if n < 3 then 1 else 0)"
  by (simp add: remediation_simple_def Let_def split: sum.splits)

lemma remediation_sequentielle_appels:
  "length (filter is_prompt_remediation
      (fst (snd (remediation_sequentielle ev d eleve ex lec lang q rep n))))
     = (if n < 3 then 1 else 0)"
  by (simp add: remediation_sequentielle_def Let_def split: sum.splits option.splits prod.splits)

lemma remediation_sequentielle_responses:
  "fst (remediation_sequentielle ev d eleve ex lec lang q rep n) = Inr d2
     \<Longrightarrow> student_responses d2 = student_responses d"
  by (auto simp add: remediation_sequentielle_def Let_def add_suggestion_def
      split: sum.splits option.splits prod.splits if_splits)

lemma soumettre_reponse_graded:
  assumes a: "response (soumettre_reponse ev d sess form) = Template_exercice_detail r b"
  shows "sr_etoiles r = extract_score (sr_analyse_ia r)
      \<and> length (filter is_prompt_remediation (appels_ia (soumettre_reponse ev d sess form)))
          = (if sr_etoiles r < 3 then 1 else 0)"
proof (cases "fr_student_id form = None \<or> fr_exercice_id form = None
               \<or> strip (fr_reponse_eleve form) = []")
  case True
  then have "\<exists>m. response (soumettre_reponse ev d sess form) = Http (Donnees_manquantes m) 400"
    by (auto simp add: soumettre_reponse_def Let_def refuse_def)
  with a show ?thesis by auto
next
  case False
  then obtain sid xid where ok: "fr_student_id form = Some sid" "fr_exercice_id form = Some xid"
    "strip (fr_reponse_eleve form) \<noteq> []" by auto
  show ?thesis
  proof (cases "find (\<lambda>u. Some (u_id u) = fr_student_id form) (users d)")
    case None
    with ok have "response (soumettre_reponse ev d sess form) = Http Eleve_non_trouve 404"
      by (simp add: soumettre_reponse_def Let_def refuse_def)
    with a show ?thesis by simp
  next
    case (Some eleve)
    note el = this
    show ?thesis
    proof (cases "find (\<lambda>x. Some (e_id x) = fr_exercice_id form) (exercices d)")
      case None
      with ok el have "response (soumettre_reponse ev d sess form) = Http Exercice_non_trouve 404"
        by (simp add: soumettre_reponse_def Let_def refuse_def)
      with a show ?thesis by simp
    next
      case (Some ex)
      note exo = this
      show ?thesis
      proof (cases "commit_error ev 0")
        case (Some e)
        with ok el exo
        have "response (soumettre_reponse ev d sess form) = Http (Erreur_base_de_donnees e) 500"
          by (simp add: soumettre_reponse_def Let_def split_beta)
        with a show ?thesis by simp
      next
        case None
        with ok el exo a show ?thesis
          using remediation_simple_appels
          by (auto simp add: soumettre_reponse_def Let_def split_beta extract_score_def)
      qed
    qed
  qed
qed

lemma soumettre_sequentiel_graded:
  assumes a: "response (soumettre_sequentiel ev d sess form)
                = Template_exercice_sequentiel ro True hn ni"
  shows "\<exists>r. ro = Some r \<and> sr_etoiles r = extract_score (sr_analyse_ia r)
      \<and> length (filter is_prompt_remediation (appels_ia (soumettre_sequentiel ev d sess form)))
          = (if sr_etoiles r < 3 then 1 else 0)"
proof -
  let ?lang = "case fs_lang form of None \<Rightarrow> ''fr'' | Some l \<Rightarrow> l"
  let ?rep = "strip (fs_reponse_eleve form)"
  let ?action = "case fs_action form of None \<Rightarrow> ''submit'' | Some a \<Rightarrow> a"
  obtain eleve lec ex where f:
    "find (\<lambda>u. u_username u = fs_username form) (users d) = Some eleve"
    "find (\<lambda>l. Some (l_id l) = fs_lecon_id form) (lecons d) = Some lec"
    "find (\<lambda>x. Some (e_id x) = fs_exercice_id form) (exercices d) = Some ex"
    using a
    by (cases "find (\<lambda>u. u_username u = fs_username form) (users d)";
        cases "find (\<lambda>l. Some (l_id l) = fs_lecon_id form) (lecons d)";
        cases "find (\<lambda>x. Some (e_id x) = fs_exercice_id form) (exercices d)")
       (simp_all add: soumettre_sequentiel_def Let_def refuse_def)
  have sub: "?action = ''submit'' \<and> ?rep \<noteq> []"
  proof (rule ccontr)
    assume "\<not> ?thesis"
    then consider (act) "?action \<noteq> ''submit''" | (vide) "?rep = []" by blast
    then have "\<exists>x y z. response (soumettre_sequentiel ev d sess form)
                 = Template_exercice_sequentiel x False y z"
    proof cases
      case act
      then show ?thesis
        using f by (simp add: soumettre_sequentiel_def Let_def refuse_def page_sequentielle_def)
    next
      case vide
      then show ?thesis
        using f by (simp add: soumettre_sequentiel_def Let_def refuse_def page_sequentielle_def)
    qed
    with a show False by auto
  qed
  let ?q = "if ?lang = ''en'' then e_question_en ex else e_question_fr ex"
  let ?p = "Prompt_correction_sequentiel (?lang = ''en'') ?q ?rep"
  let ?an = "fst (appel_correction ev ?p)"
  let ?et = "fst (extraction ?an)"
  let ?n = "\<lparr>sr_id = next_id (map sr_id (student_responses d)),
              sr_user_id = u_id eleve, sr_exercice_id = Some (e_id ex),
              sr_reponse_eleve = ?rep, sr_analyse_ia = ?an,
              sr_etoiles = ?et, sr_timestamp = utcnow ev\<rparr>"
  let ?R = "remediation_sequentielle ev (add_response ?n d) eleve ex lec ?lang ?q ?rep ?et"
  have c0: "commit_error ev 0 = None"
  proof (cases "commit_error ev 0")
    case None
    then show ?thesis .
  next
    case (Some e)
    then have "response (soumettre_sequentiel ev d sess form) = Http (Erreur_base_de_donnees e) 500"
      using f sub by (simp add: soumettre_sequentiel_def Let_def split_beta)
    with a show ?thesis by simp
  qed
  obtain d2 where r: "fst ?R = Inr d2"
  proof (cases "fst ?R")
    case (Inl e)
    then have "response (soumettre_sequentiel ev d sess form) = Unhandled_exception e"
      using f sub c0 by (simp add: soumettre_sequentiel_def Let_def split_beta)
    with a show ?thesis by simp
  next
    case (Inr d2)
    then show ?thesis using that by simp
  qed
  have rows: "student_responses d2 = student_responses d @ [?n]"
    using remediation_sequentielle_responses [OF r] by (simp add: add_response_def)
  have fnd: "find (\<lambda>r. sr_id r = sr_id ?n) (student_responses d2) = Some ?n"
    unfolding rows by (rule find_new_row) simp
  have resp: "response (soumettre_sequentiel ev d sess form)
                = page_sequentielle d2 form (Some ?n) True"
    using f sub c0 r fnd by (simp add: soumettre_sequentiel_def Let_def split_beta)
  have app: "appels_ia (soumettre_sequentiel ev d sess form) = ?p # fst (snd ?R)"
    using f sub c0 r by (simp add: soumettre_sequentiel_def Let_def split_beta)
  have ro: "ro = Some ?n" using a resp by (simp add: page_sequentielle_def Let_def)
  have cnt: "length (filter is_prompt_remediation (?p # fst (snd ?R))) = (if ?et < 3 then 1 else 0)"
    using remediation_sequentielle_appels [of ev "add_response ?n d" eleve ex lec ?lang ?q ?rep ?et]
    by simp
  show ?thesis
    unfolding app ro using cnt by (simp add: extract_score_def)
qed

lemma find_Some_holds: "find P xs = Some x \<Longrightarrow> P x"
  by (induction xs) (auto split: if_splits)

lemma soumettre_reponse_every_graded:
  assumes u: "find (\<lambda>u. Some (u_id u) = fr_student_id form) (users d) = Some eleve"
    and x: "find (\<lambda>x. Some (e_id x) = fr_exercice_id form) (exercices d) = Some ex"
    and ne: "strip (fr_reponse_eleve form) \<noteq> []"
    and an: "analyse_ia = fst (appel_correction ev
               (Prompt_correction (langue_de eleve = ''en'')
                  (if langue_de eleve = ''en'' then e_question_en ex else e_question_fr ex)
                  (strip (fr_reponse_eleve form))))"
  shows "length (filter is_prompt_remediation (appels_ia (soumettre_reponse ev d sess form)))
           = (if extract_score analyse_ia < 3 then 1 else 0)
       \<and> (commit_error ev 0 = None \<longrightarrow>
            (\<exists>r. response (soumettre_reponse ev d sess form)
                   = Template_exercice_detail r (extract_score analyse_ia < 3)
                 \<and> sr_analyse_ia r = analyse_ia \<and> sr_etoiles r = extract_score analyse_ia))"
proof -
  have sid: "fr_student_id form = Some (u_id eleve)"
    using find_Some_holds [OF u] by simp
  have xid: "fr_exercice_id form = Some (e_id ex)"
    using find_Some_holds [OF x] by simp
  show ?thesis
  proof (cases "commit_error ev 0")
    case None
    then show ?thesis
      using u x ne sid xid remediation_simple_appels
      by (simp add: soumettre_reponse_def Let_def split_beta extract_score_def an)
  next
    case (Some e)
    then show ?thesis
      using u x ne sid xid remediation_simple_appels
      by (simp add: soumettre_reponse_def Let_def split_beta extract_score_def an)
  qed
qed

lemma remediation_sequentielle_Inr:
  "n \<ge> 3 \<or> commit_error ev 1 = None \<Longrightarrow>
     \<exists>d2. fst (remediation_sequentielle ev d eleve ex lec lang q rep n) = Inr d2"
  by (auto simp add: remediation_sequentielle_def Let_def split_beta split: sum.splits)

lemma soumettre_sequentiel_every_graded:
  assumes u: "find (\<lambda>u. u_username u = fs_username form) (users d) = Some eleve"
    and l: "find (\<lambda>l. Some (l_id l) = fs_lecon_id form) (lecons d) = Some lec"
    and x: "find (\<lambda>x. Some (e_id x) = fs_exercice_id form) (exercices d) = Some ex"
    and act: "(case fs_action form of None \<Rightarrow> ''submit'' | Some a \<Rightarrow> a) = ''submit''"
    and ne: "strip (fs_reponse_eleve form) \<noteq> []"
    and c0: "commit_error ev 0 = None"
    and lg: "lang = (case fs_lang form of None \<Rightarrow> ''fr'' | Some l \<Rightarrow> l)"
    and an: "analyse_ia = fst (appel_correction ev
               (Prompt_correction_sequentiel (lang = ''en'')
                  (if lang = ''en'' then e_question_en ex else e_question_fr ex)
                  (strip (fs_reponse_eleve form))))"
  shows "length (filter is_prompt_remediation (appels_ia (soumettre_sequentiel ev d sess form)))
           = (if extract_score analyse_ia < 3 then 1 else 0)
       \<and> (commit_error ev 1 = None \<longrightarrow>
            (\<exists>r hn ni. response (soumettre_sequentiel ev d sess form)
                   = Template_exercice_sequentiel (Some r) True hn ni
                 \<and> sr_analyse_ia r = analyse_ia \<and> sr_etoiles r = extract_score analyse_ia))"
proof -
  let ?rep = "strip (fs_reponse_eleve form)"
  let ?q = "if lang = ''en'' then e_question_en ex else e_question_fr ex"
  let ?p = "Prompt_correction_sequentiel (lang = ''en'') ?q ?rep"
  let ?et = "fst (extraction analyse_ia)"
  let ?n = "\<lparr>sr_id = next_id (map sr_id (student_responses d)),
              sr_user_id = u_id eleve, sr_exercice_id = Some (e_id ex),
              sr_reponse_eleve = ?rep, sr_analyse_ia = analyse_ia,
              sr_etoiles = ?et, sr_timestamp = utcnow ev\<rparr>"
  let ?R = "remediation_sequentielle ev (add_response ?n d) eleve ex lec lang ?q ?rep ?et"
  have app: "appels_ia (soumettre_sequentiel ev d sess form) = ?p # fst (snd ?R)"
    using u l x act ne c0
    by (cases "fst ?R") (simp_all add: soumettre_sequentiel_def Let_def split_beta lg [symmetric] an [symmetric])
  have cnt: "length (filter is_prompt_remediation (?p # fst (snd ?R))) = (if ?et < 3 then 1 else 0)"
    using remediation_sequentielle_appels [of ev "add_response ?n d" eleve ex lec lang ?q ?rep ?et]
    by simp
  have page: "\<exists>r hn ni. response (soumettre_sequentiel ev d sess form)
                   = Template_exercice_sequentiel (Some r) True hn ni
                 \<and> sr_analyse_ia r = analyse_ia \<and> sr_etoiles r = extract_score analyse_ia"
    if c1: "commit_error ev 1 = None"
  proof -
    from remediation_sequentielle_Inr [of ?et ev "add_response ?n d" eleve ex lec lang ?q ?rep] c1
    obtain d2 where r: "fst ?R = Inr d2" by blast
    have rows: "student_responses d2 = student_responses d @ [?n]"
      using remediation_sequentielle_responses [OF r] by (simp add: add_response_def)
    have fnd: "find (\<lambda>r. sr_id r = sr_id ?n) (student_responses d2) = Some ?n"
      unfolding rows by (rule find_new_row) simp
    have "response (soumettre_sequentiel ev d sess form)
                = page_sequentielle d2 form (Some ?n) True"
      using u l x act ne c0 r fnd
      by (simp add: soumettre_sequentiel_def Let_def split_beta lg [symmetric] an [symmetric])
    then show ?thesis
      by (simp add: page_sequentielle_def Let_def extract_score_def)
  qed
  show ?thesis
    unfolding app using cnt page by (simp add: extract_score_def)
qed

lemma find_update:
  assumes "find (\<lambda>r. rs_id r = rid) xs = Some r" and "\<And>x. rs_id (f x) = rs_id x"
  shows "find (\<lambda>r. rs_id r = rid) (map (\<lambda>x. if rs_id x = rid then f x else x) xs) = Some (f r)"
  using assms(1)
proof (induction xs)
  case Nil
  then show ?case by simp
next
  case (Cons a xs)
  then show ?case using assms(2) by (cases "rs_id a = rid") auto
qed

section \<open>The claims\<close>

text \<open>
  C1. For both submission routes, \<open>soumettre_reponse\<close> and \<open>soumettre_sequentiel\<close>,
  and for every submission that is graded: the student and the exercise (and, in the
  sequence, the lesson) are found, the answer is not empty (and, in the sequence, the
  action is \<open>submit\<close> and the commit of the answer succeeds). With \<open>analyse_ia\<close> the
  analysis the grading call has produced, the prompts the route has sent when it
  returns hold exactly one remediation prompt if the mark extracted from \<open>analyse_ia\<close>
  is below 3 and none if it is 3 or more; and when the commits succeed the route
  answers with its page of feedback for the answer, which carries that analysis and
  that mark. Conversely, whenever a route answers with its page of feedback, the mark
  on the page is the one extracted from its analysis and the remediation prompts sent
  are one or none by that mark.
\<close>

theorem remediation_called_once_iff_low_score:
  "(find (\<lambda>u. Some (u_id u) = fr_student_id form) (users d) = Some eleve
      \<and> find (\<lambda>x. Some (e_id x) = fr_exercice_id form) (exercices d) = Some ex
      \<and> strip (fr_reponse_eleve form) \<noteq> []
      \<and> analyse_ia = fst (appel_correction ev
               (Prompt_correction (langue_de eleve = ''en'')
                  (if langue_de eleve = ''en'' then e_question_en ex else e_question_fr ex)
                  (strip (fr_reponse_eleve form)))) \<longrightarrow>
      length (filter is_prompt_remediation (appels_ia (soumettre_reponse ev d sess form)))
        = (if extract_score analyse_ia < 3 then 1 else 0)
      \<and> (commit_error ev 0 = None \<longrightarrow>
            (\<exists>r. response (soumettre_reponse ev d sess form)
                   = Template_exercice_detail r (extract_score analyse_ia < 3)
                 \<and> sr_analyse_ia r = analyse_ia \<and> sr_etoiles r = extract_score analyse_ia)))
   \<and> (find (\<lambda>u. u_username u = fs_username form') (users d) = Some eleve'
      \<and> find (\<lambda>l. Some (l_id l) = fs_lecon_id form') (lecons d) = Some lec
      \<and> find (\<lambda>x. Some (e_id x) = fs_exercice_id form') (exercices d) = Some ex'
      \<and> (case fs_action form' of None \<Rightarrow> ''submit'' | Some a \<Rightarrow> a) = ''submit''
      \<and> strip (fs_reponse_eleve form') \<noteq> []
      \<and> commit_error ev 0 = None
      \<and> lang = (case fs_lang form' of None \<Rightarrow> ''fr'' | Some l \<Rightarrow> l)
      \<and> analyse_ia' = fst (appel_correction ev
               (Prompt_correction_sequentiel (lang = ''en'')
                  (if lang = ''en'' then e_question_en ex' else e_question_fr ex')
                  (strip (fs_reponse_eleve form')))) \<longrightarrow>
      length (filter is_prompt_remediation (appels_ia (soumettre_sequentiel ev d sess form')))
        = (if extract_score analyse_ia' < 3 then 1 else 0)
      \<and> (commit_error ev 1 = None \<longrightarrow>
            (\<exists>r hn ni. response (soumettre_sequentiel ev d sess form')
                   = Template_exercice_sequentiel (Some r) True hn ni
                 \<and> sr_analyse_ia r = analyse_ia' \<and> sr_etoiles r = extract_score analyse_ia')))
   \<and> (response (soumettre_reponse ev d sess form) = Template_exercice_detail r b \<longrightarrow>
      sr_etoiles r = extract_score (sr_analyse_ia r)
      \<and> length (filter is_prompt_remediation (appels_ia (soumettre_reponse ev d sess form)))
          = (if sr_etoiles r < 3 then 1 else 0))
   \<and> (response (soumettre_sequentiel ev d sess form') = Template_exercice_sequentiel ro True hn ni \<longrightarrow>
      (\<exists>r'. ro = Some r' \<and> sr_etoiles r' = extract_score (sr_analyse_ia r')
      \<and> length (filter is_prompt_remediation (appels_ia (soumettre_sequentiel ev d sess form')))
          = (if sr_etoiles r' < 3 then 1 else 0)))"
proof (intro conjI impI)
  assume h: "find (\<lambda>u. Some (u_id u) = fr_student_id form) (users d) = Some eleve
      \<and> find (\<lambda>x. Some (e_id x) = fr_exercice_id form) (exercices d) = Some ex
      \<and> strip (fr_reponse_eleve form) \<noteq> []
      \<and> analyse_ia = fst (appel_correction ev
               (Prompt_correction (langue_de eleve = ''en'')
                  (if langue_de eleve = ''en'' then e_question_en ex else e_question_fr ex)
                  (strip (fr_reponse_eleve form))))"
  note s = soumettre_reponse_every_graded [of form d eleve ex analyse_ia ev sess]
  from h s show "length (filter is_prompt_remediation (appels_ia (soumettre_reponse ev d sess form)))
        = (if extract_score analyse_ia < 3 then 1 else 0)" by blast
  assume "commit_error ev 0 = None"
  with h s show "\<exists>r. response (soumettre_reponse ev d sess form)
                   = Template_exercice_detail r (extract_score analyse_ia < 3)
                 \<and> sr_analyse_ia r = analyse_ia \<and> sr_etoiles r = extract_score analyse_ia"
    by blast
next
  assume h: "find (\<lambda>u. u_username u = fs_username form') (users d) = Some eleve'
      \<and> find (\<lambda>l. Some (l_id l) = fs_lecon_id form') (lecons d) = Some lec
      \<and> find (\<lambda>x. Some (e_id x) = fs_exercice_id form') (exercices d) = Some ex'
      \<and> (case fs_action form' of None \<Rightarrow> ''submit'' | Some a \<Rightarrow> a) = ''submit''
      \<and> strip (fs_reponse_eleve form') \<noteq> []
      \<and> commit_error ev 0 = None
      \<and> lang = (case fs_lang form' of None \<Rightarrow> ''fr'' | Some l \<Rightarrow> l)
      \<and> analyse_ia' = fst (appel_correction ev
               (Prompt_correction_sequentiel (lang = ''en'')
                  (if lang = ''en'' then e_question_en ex' else e_question_fr ex')
                  (strip (fs_reponse_eleve form'))))"
  note s = soumettre_sequentiel_every_graded [of form' d eleve' lec ex' ev lang analyse_ia' sess]
  from h s show "length (filter is_prompt_remediation (appels_ia (soumettre_sequentiel ev d sess form')))
        = (if extract_score analyse_ia' < 3 then 1 else 0)" by blast
  assume "commit_error ev 1 = None"
  with h s show "\<exists>r hn ni. response (soumettre_sequentiel ev d sess form')
                   = Template_exercice_sequentiel (Some r) True hn ni
                 \<and> sr_analyse_ia r = analyse_ia' \<and> sr_etoiles r = extract_score analyse_ia'"
    by blast
next
  assume "response (soumettre_reponse ev d sess form) = Template_exercice_detail r b"
  from soumettre_reponse_graded [OF this]
  show "sr_etoiles r = extract_score (sr_analyse_ia r)"
    and "length (filter is_prompt_remediation (appels_ia (soumettre_reponse ev d sess form)))
          = (if sr_etoiles r < 3 then 1 else 0)" by blast+
next
  assume "response (soumettre_sequentiel ev d sess form') = Template_exercice_sequentiel ro True hn ni"
  from soumettre_sequentiel_graded [OF this]
  show "\<exists>r'. ro = Some r' \<and> sr_etoiles r' = extract_score (sr_analyse_ia r')
      \<and> length (filter is_prompt_remediation (appels_ia (soumettre_sequentiel ev d sess form')))
          = (if sr_etoiles r' < 3 then 1 else 0)" .
qed

text \<open>
  A mark of 2: one remediation prompt in each of the two routes, sent before the page
  of feedback is returned. A mark of 4: none in either.
\<close>

theorem remediation_called_once_iff_low_score_witness:
  "length (filter is_prompt_remediation
        (appels_ia (soumettre_reponse (service (Inr ''Note : 2/5'') (Inr ''Question : 1/4 + 1/4''))
                      ecole (session_de 1) formulaire_lea))) = 1
   \<and> response (soumettre_reponse (service (Inr ''Note : 2/5'') (Inr ''Question : 1/4 + 1/4'')) ecole
               (session_de 1) formulaire_lea)
     = Template_exercice_detail
         \<lparr>sr_id = 1, sr_user_id = 1, sr_exercice_id = Some 1, sr_reponse_eleve = ''2/5'',
          sr_analyse_ia = ''Note : 2/5'', sr_etoiles = 2, sr_timestamp = 100\<rparr> True
   \<and> length (filter is_prompt_remediation
        (appels_ia (soumettre_sequentiel (service (Inr ''Note : 2/5'') (Inr ''Question : 1/4 + 1/4''))
                      ecole (session_de 1) formulaire_sequentiel_lea))) = 1
   \<and> response (soumettre_sequentiel (service (Inr ''Note : 2/5'') (Inr ''Question : 1/4 + 1/4''))
                 ecole (session_de 1) formulaire_sequentiel_lea)
     = Template_exercice_sequentiel
         (Some \<lparr>sr_id = 1, sr_user_id = 1, sr_exercice_id = Some 1, sr_reponse_eleve = ''2/5'',
                sr_analyse_ia = ''Note : 2/5'', sr_etoiles = 2, sr_timestamp = 100\<rparr>)
         True False 1
   \<and> length (filter is_prompt_remediation
        (appels_ia (soumettre_reponse (service (Inr ''Note : 4/5'') (Inr ''Question : 1/4 + 1/4''))
                      ecole (session_de 1) formulaire_lea))) = 0
   \<and> length (filter is_prompt_remediation
        (appels_ia (soumettre_sequentiel (service (Inr ''Note : 4/5'') (Inr ''Question : 1/4 + 1/4''))
                      ecole (session_de 1) formulaire_sequentiel_lea))) = 0"
proof -
  let ?bas = "service (Inr ''Note : 2/5'') (Inr ''Question : 1/4 + 1/4'')"
  let ?haut = "service (Inr ''Note : 4/5'') (Inr ''Question : 1/4 + 1/4'')"
  let ?ex = "\<lparr>e_id = 1, e_lecon_id = Some 1, e_theme = ''Calcul'',
               e_question_fr = ''1/2 + 1/3'', e_question_en = ''1/2 + 1/3''\<rparr>"
  let ?lec = "\<lparr>l_id = 1, l_titre_fr = ''Fractions''\<rparr>"
  let ?r = "\<lparr>sr_id = 1, sr_user_id = 1, sr_exercice_id = Some 1, sr_reponse_eleve = ''2/5'',
          sr_analyse_ia = ''Note : 2/5'', sr_etoiles = 2, sr_timestamp = 100\<rparr>"
  have simple: "find (\<lambda>u. Some (u_id u) = fr_student_id formulaire_lea) (users ecole) = Some lea
      \<and> find (\<lambda>x. Some (e_id x) = fr_exercice_id formulaire_lea) (exercices ecole) = Some ?ex
      \<and> strip (fr_reponse_eleve formulaire_lea) \<noteq> []
      \<and> ''Note : 2/5'' = fst (appel_correction ?bas
               (Prompt_correction (langue_de lea = ''en'')
                  (if langue_de lea = ''en'' then e_question_en ?ex else e_question_fr ?ex)
                  (strip (fr_reponse_eleve formulaire_lea))))"
    by code_simp
  have simple': "find (\<lambda>u. Some (u_id u) = fr_student_id formulaire_lea) (users ecole) = Some lea
      \<and> find (\<lambda>x. Some (e_id x) = fr_exercice_id formulaire_lea) (exercices ecole) = Some ?ex
      \<and> strip (fr_reponse_eleve formulaire_lea) \<noteq> []
      \<and> ''Note : 4/5'' = fst (appel_correction ?haut
               (Prompt_correction (langue_de lea = ''en'')
                  (if langue_de lea = ''en'' then e_question_en ?ex else e_question_fr ?ex)
                  (strip (fr_reponse_eleve formulaire_lea))))"
    by code_simp
  have seq: "find (\<lambda>u. u_username u = fs_username formulaire_sequentiel_lea) (users ecole) = Some lea
      \<and> find (\<lambda>l. Some (l_id l) = fs_lecon_id formulaire_sequentiel_lea) (lecons ecole) = Some ?lec
      \<and> find (\<lambda>x. Some (e_id x) = fs_exercice_id formulaire_sequentiel_lea) (exercices ecole) = Some ?ex
      \<and> (case fs_action formulaire_sequentiel_lea of None \<Rightarrow> ''submit'' | Some a \<Rightarrow> a) = ''submit''
      \<and> strip (fs_reponse_eleve formulaire_sequentiel_lea) \<noteq> []
      \<and> commit_error ?bas 0 = None
      \<and> ''fr'' = (case fs_lang formulaire_sequentiel_lea of None \<Rightarrow> ''fr'' | Some l \<Rightarrow> l)
      \<and> ''Note : 2/5'' = fst (appel_correction ?bas
               (Prompt_correction_sequentiel (''fr'' = ''en'')
                  (if ''fr'' = ''en'' then e_question_en ?ex else e_question_fr ?ex)
                  (strip (fs_reponse_eleve formulaire_sequentiel_lea))))"
    by code_simp
  have seq': "find (\<lambda>u. u_username u = fs_username formulaire_sequentiel_lea) (users ecole) = Some lea
      \<and> find (\<lambda>l. Some (l_id l) = fs_lecon_id formulaire_sequentiel_lea) (lecons ecole) = Some ?lec
      \<and> find (\<lambda>x. Some (e_id x) = fs_exercice_id formulaire_sequentiel_lea) (exercices ecole) = Some ?ex
      \<and> (case fs_action formulaire_sequentiel_lea of None \<Rightarrow> ''submit'' | Some a \<Rightarrow> a) = ''submit''
      \<and> strip (fs_reponse_eleve formulaire_sequentiel_lea) \<noteq> []
      \<and> commit_error ?haut 0 = None
      \<and> ''fr'' = (case fs_lang formulaire_sequentiel_lea of None \<Rightarrow> ''fr'' | Some l \<Rightarrow> l)
      \<and> ''Note : 4/5'' = fst (appel_correction ?haut
               (Prompt_correction_sequentiel (''fr'' = ''en'')
                  (if ''fr'' = ''en'' then e_question_en ?ex else e_question_fr ?ex)
                  (strip (fs_reponse_eleve formulaire_sequentiel_lea))))"
    by code_simp
  have e2: "extract_score ''Note : 2/5'' = 2" by code_simp
  have e4: "extract_score ''Note : 4/5'' = 4" by code_simp
  note bas = remediation_called_once_iff_low_score
    [where ev = ?bas and d = ecole and sess = "session_de 1" and form = formulaire_lea
       and eleve = lea and ex = ?ex and analyse_ia = "''Note : 2/5''"
       and form' = formulaire_sequentiel_lea and eleve' = lea and lec = ?lec and ex' = ?ex
       and lang = "''fr''" and analyse_ia' = "''Note : 2/5''"]
  note haut = remediation_called_once_iff_low_score
    [where ev = ?haut and d = ecole and sess = "session_de 1" and form = formulaire_lea
       and eleve = lea and ex = ?ex and analyse_ia = "''Note : 4/5''"
       and form' = formulaire_sequentiel_lea and eleve' = lea and lec = ?lec and ex' = ?ex
       and lang = "''fr''" and analyse_ia' = "''Note : 4/5''"]
  have 1: "length (filter is_prompt_remediation
        (appels_ia (soumettre_reponse ?bas ecole (session_de 1) formulaire_lea))) = 1"
    using bas [THEN conjunct1, THEN mp, OF simple, THEN conjunct1] e2 by simp
  have 2: "length (filter is_prompt_remediation
        (appels_ia (soumettre_sequentiel ?bas ecole (session_de 1) formulaire_sequentiel_lea))) = 1"
    using bas [THEN conjunct2, THEN conjunct1, THEN mp, OF seq, THEN conjunct1] e2 by simp
  have 3: "length (filter is_prompt_remediation
        (appels_ia (soumettre_reponse ?haut ecole (session_de 1) formulaire_lea))) = 0"
    using haut [THEN conjunct1, THEN mp, OF simple', THEN conjunct1] e4 by simp
  have 4: "length (filter is_prompt_remediation
        (appels_ia (soumettre_sequentiel ?haut ecole (session_de 1) formulaire_sequentiel_lea))) = 0"
    using haut [THEN conjunct2, THEN conjunct1, THEN mp, OF seq', THEN conjunct1] e4 by simp
  have 5: "response (soumettre_reponse ?bas ecole (session_de 1) formulaire_lea)
             = Template_exercice_detail ?r True"
    by code_simp
  have 6: "response (soumettre_sequentiel ?bas ecole (session_de 1) formulaire_sequentiel_lea)
             = Template_exercice_sequentiel (Some ?r) True False 1"
    by code_simp
  from 1 5 2 6 3 4 show ?thesis by (intro conjI)
qed

text \<open>
  C2. Claimed: when the completion service fails during grading, the caller gets a
  failure of its own kind and no grading record is stored. In \<open>soumettre_reponse\<close> and
  \<open>soumettre_sequentiel\<close> the handler turns the exception into the analysis: with a
  service that times out, the page of feedback is rendered and the answer is stored
  with the analysis \<open>Erreur IA : timeout\<close> and the mark 0. The sibling route
  \<open>soumettre_remediation\<close> answers \<open>Erreur IA\<close> with status 500 and stores nothing.
\<close>

theorem grading_failure_is_persisted:
  "response (soumettre_reponse (service (Inl ''timeout'') (Inr ''Question : 1/4 + 1/4'')) ecole
               (session_de 1) formulaire_lea)
     = Template_exercice_detail
         \<lparr>sr_id = 1, sr_user_id = 1, sr_exercice_id = Some 1, sr_reponse_eleve = ''2/5'',
          sr_analyse_ia = ''Erreur IA : timeout'', sr_etoiles = 0, sr_timestamp = 100\<rparr> True
   \<and> student_responses
        (db_after (soumettre_reponse (service (Inl ''timeout'') (Inr ''Question : 1/4 + 1/4''))
                     ecole (session_de 1) formulaire_lea))
     = [\<lparr>sr_id = 1, sr_user_id = 1, sr_exercice_id = Some 1, sr_reponse_eleve = ''2/5'',
         sr_analyse_ia = ''Erreur IA : timeout'', sr_etoiles = 0, sr_timestamp = 100\<rparr>]
   \<and> student_responses
        (db_after (soumettre_sequentiel (service (Inl ''timeout'') (Inr ''Question : 1/4 + 1/4''))
                     ecole (session_de 1) formulaire_sequentiel_lea))
     = [\<lparr>sr_id = 1, sr_user_id = 1, sr_exercice_id = Some 1, sr_reponse_eleve = ''2/5'',
         sr_analyse_ia = ''Erreur IA : timeout'', sr_etoiles = 0, sr_timestamp = 100\<rparr>]
   \<and> response (soumettre_remediation (service (Inl ''timeout'') (Inr ''Question : 1/4 + 1/4''))
                 ecole_remediations (session_de 1) 1 \<lparr>fm_reponse_eleve = ''1/2'', fm_reponse = []\<rparr>)
     = Http (Erreur_IA ''timeout'') 500
   \<and> db_after (soumettre_remediation (service (Inl ''timeout'') (Inr ''Question : 1/4 + 1/4''))
                 ecole_remediations (session_de 1) 1 \<lparr>fm_reponse_eleve = ''1/2'', fm_reponse = []\<rparr>)
     = ecole_remediations"
  by code_simp

text \<open>
  C3. Claimed: when the label is followed by a digit \<open>d > 5\<close> in the form
  \<open>Label: d/5\<close>, the extraction returns 5. The first pattern takes \<open>int(match.group(2))\<close>
  as it is; only the fallback pattern applies \<open>min(..., 5)\<close>. On \<open>Score: 7/5\<close> the mark
  extracted is 7, and 7 is the mark \<open>soumettre_reponse\<close> stores; on \<open>Score: 7\<close> it is 5.
\<close>

theorem score_sur5_not_clamped:
  "extraction ''Score: 7/5'' = (7, Note_extraite 7)
   \<and> extract_score ''Score: 7/5'' = 7
   \<and> extract_score ''Score: 7'' = 5
   \<and> map sr_etoiles
        (student_responses
           (db_after (soumettre_reponse (service (Inr ''Score: 7/5'') (Inr [])) ecole
                        (session_de 1) formulaire_lea))) = [7]"
  by code_simp

text \<open>
  C4. Claimed: nothing changes the status of a suggestion that is \<open>reussie\<close>, and a
  teacher's approval of it is refused with the store unchanged. The suggestion 2 of the
  example is \<open>reussie\<close>; the POST of \<open>valider_remediation\<close> by a teacher is answered by
  the redirection of a successful validation and leaves the suggestion \<open>valide\<close>.
\<close>

theorem approval_reopens_succeeded_counterexample:
  "map rs_statut (remediation_suggestions ecole_remediations) = [''valide'', ''reussie'', ''valide'']
   \<and> response (valider_remediation (service (Inr []) (Inr [])) ecole_remediations
                 session_enseignant None 2 (POST formulaire_validation))
     = Redirect ''remediations_a_valider''
   \<and> map rs_statut
        (remediation_suggestions
           (db_after (valider_remediation (service (Inr []) (Inr [])) ecole_remediations
                        session_enseignant None 2 (POST formulaire_validation))))
     = [''valide'', ''valide'', ''valide'']"
  by code_simp

text \<open>
  C4, as the code has it: for every suggestion whose status is \<open>reussie\<close>, a student's
  attempt through \<open>faire_remediation\<close> calls no completion and leaves the store and the
  session as they are, so that this route does not reopen the suggestion; a teacher's
  approval, the POST of \<open>valider_remediation\<close> by a logged-in teacher whose commit
  succeeds, is carried out: the message and the exercise are rewritten and the status
  becomes \<open>valide\<close>.
\<close>

theorem succeeded_suggestion_after_attempt_and_approval:
  assumes "get_suggestion d rid = Some r" and "rs_statut r = ''reussie''"
  shows "db_after (faire_remediation ev d sess rid req) = d
       \<and> session_after (faire_remediation ev d sess rid req) = sess
       \<and> appels_ia (faire_remediation ev d sess rid req) = []
       \<and> (s_enseignant_id sess' \<noteq> None \<and> commit_error ev 0 = None \<longrightarrow>
            response (valider_remediation ev d sess' lang_arg rid (POST form))
              = Redirect ''remediations_a_valider''
          \<and> get_suggestion (db_after (valider_remediation ev d sess' lang_arg rid (POST form))) rid
              = Some (r\<lparr>rs_message := fv_message form,
                        rs_exercice_suggere :=
                          bloc_remediation (case lang_arg of None \<Rightarrow> ''fr'' | Some l \<Rightarrow> l) form,
                        rs_statut := ''valide''\<rparr>))"
proof -
  have ne: "rs_statut r \<noteq> ''valide''" using assms(2) by simp
  have 1: "db_after (faire_remediation ev d sess rid req) = d
       \<and> session_after (faire_remediation ev d sess rid req) = sess
       \<and> appels_ia (faire_remediation ev d sess rid req) = []"
    using assms(1) ne
    by (simp add: faire_remediation_def refuse_def split: option.splits)
  have 2: "get_suggestion (update_suggestion rid f d) rid = Some (f r)" if "\<And>x. rs_id (f x) = rs_id x" for f
    using find_update [OF assms(1) [unfolded get_suggestion_def], of f] that
    by (simp add: get_suggestion_def update_suggestion_def)
  show ?thesis
    using 1 assms(1) 2 [of "\<lambda>r. r\<lparr>rs_message := fv_message form,
                                    rs_exercice_suggere := bloc_remediation (case lang_arg of None \<Rightarrow> ''fr'' | Some l \<Rightarrow> l) form,
                                    rs_statut := ''valide''\<rparr>"]
    by (auto simp add: valider_remediation_def refuse_def Let_def)
qed

theorem succeeded_suggestion_after_attempt_and_approval_witness:
  "get_suggestion ecole_remediations 2 = Some (suggestion_exemple 2 1 ''reussie'')
   \<and> rs_statut (suggestion_exemple 2 1 ''reussie'') = ''reussie''
   \<and> response (faire_remediation (service (Inr ''Note : 1/5'') (Inr [])) ecole_remediations
        (session_de 1) 2 (POST \<lparr>fm_reponse_eleve = ''1/3'', fm_reponse = []\<rparr>))
       = Template_remediation_non_validee
   \<and> db_after (faire_remediation (service (Inr ''Note : 1/5'') (Inr [])) ecole_remediations
        (session_de 1) 2 (POST \<lparr>fm_reponse_eleve = ''1/3'', fm_reponse = []\<rparr>))
       = ecole_remediations
   \<and> map_option rs_statut
        (get_suggestion
           (db_after (valider_remediation (service (Inr ''Note : 1/5'') (Inr [])) ecole_remediations
                        session_enseignant None 2 (POST formulaire_validation))) 2)
       = Some ''valide''"
proof -
  let ?ev = "service (Inr ''Note : 1/5'') (Inr [])"
  have 1: "get_suggestion ecole_remediations 2 = Some (suggestion_exemple 2 1 ''reussie'')"
    by code_simp
  have 2: "rs_statut (suggestion_exemple 2 1 ''reussie'') = ''reussie''"
    by (simp add: suggestion_exemple_def)
  have 3: "s_enseignant_id session_enseignant \<noteq> None \<and> commit_error ?ev 0 = None"
    by (simp add: session_enseignant_def service_def)
  have 4: "response (faire_remediation ?ev ecole_remediations
        (session_de 1) 2 (POST \<lparr>fm_reponse_eleve = ''1/3'', fm_reponse = []\<rparr>))
       = Template_remediation_non_validee"
    by code_simp
  show ?thesis
    using succeeded_suggestion_after_attempt_and_approval [OF 1 2,
        where ev = ?ev and sess = "session_de 1" and sess' = session_enseignant
          and req = "POST \<lparr>fm_reponse_eleve = ''1/3'', fm_reponse = []\<rparr>"
          and lang_arg = None and form = formulaire_validation] 1 2 3 4
    by simp
qed

text \<open>
  C5. Claimed: after a mark below 3 a pending suggestion exists and the guided dialogue
  is open to the student even when the free trial is over. Lea's trial is over and
  unpaid. Lea's answer gets \<open>Note : 2/5\<close>: the suggestion is created with the status
  \<open>en_attente\<close> and \<open>soumettre_reponse\<close> stores \<open>remediation_access\<close> in Lea's session.
  \<open>enseignant_virtuel\<close>, entered with that store and that session, redirects Lea to the
  login and clears the session, the access grant with it.
\<close>

theorem remediation_grant_ignored_by_gate:
  "map rs_statut (remediation_suggestions
      (db_after (soumettre_reponse (service (Inr ''Note : 2/5'') (Inr ''Question : 1/4 + 1/4''))
                   ecole (session_de 1) formulaire_lea))) = [''en_attente'']
   \<and> s_remediation_access
        (session_after (soumettre_reponse (service (Inr ''Note : 2/5'') (Inr ''Question : 1/4 + 1/4''))
                          ecole (session_de 1) formulaire_lea))
     = Some \<lparr>ra_exercice_id = 1, ra_note = 2, ra_access_count = 0, ra_first_access = 100\<rparr>
   \<and> response
        (enseignant_virtuel textes_exemple (service (Inr ''Bonjour'') (Inr ''Question : 1/4 + 1/4''))
           (db_after (soumettre_reponse (service (Inr ''Note : 2/5'') (Inr ''Question : 1/4 + 1/4''))
                        ecole (session_de 1) formulaire_lea))
           (session_after (soumettre_reponse (service (Inr ''Note : 2/5'') (Inr ''Question : 1/4 + 1/4''))
                             ecole (session_de 1) formulaire_lea))
           GET)
     = Redirect ''login_eleve''
   \<and> session_after
        (enseignant_virtuel textes_exemple (service (Inr ''Bonjour'') (Inr ''Question : 1/4 + 1/4''))
           (db_after (soumettre_reponse (service (Inr ''Note : 2/5'') (Inr ''Question : 1/4 + 1/4''))
                        ecole (session_de 1) formulaire_lea))
           (session_after (soumettre_reponse (service (Inr ''Note : 2/5'') (Inr ''Question : 1/4 + 1/4''))
                             ecole (session_de 1) formulaire_lea))
           GET)
     = session_vide\<lparr>s_flashes := [(''error'', ''essai_termine'')]\<rparr>"
  by code_simp

text \<open>
  C6. Claimed: when the completion service fails during the generation of the
  remediation, the grading result is still returned, the failure is only logged and no
  suggestion is created. In \<open>soumettre_sequentiel\<close>, with a mark of 2 and a remediation
  completion that times out, the page of feedback is rendered and a suggestion is
  created, pending, whose exercise is the text of the error. In \<open>soumettre_reponse\<close>,
  on the same answers of the service, no suggestion is created.
\<close>

theorem failed_remediation_still_creates_suggestion:
  "response (soumettre_sequentiel (service (Inr ''Note : 2/5'') (Inl ''timeout'')) ecole
               (session_de 1) formulaire_sequentiel_lea)
     = Template_exercice_sequentiel
         (Some \<lparr>sr_id = 1, sr_user_id = 1, sr_exercice_id = Some 1, sr_reponse_eleve = ''2/5'',
                sr_analyse_ia = ''Note : 2/5'', sr_etoiles = 2, sr_timestamp = 100\<rparr>)
         True False 1
   \<and> map (\<lambda>r. (rs_statut r, rs_exercice_suggere r))
        (remediation_suggestions
           (db_after (soumettre_sequentiel (service (Inr ''Note : 2/5'') (Inl ''timeout'')) ecole
                        (session_de 1) formulaire_sequentiel_lea)))
     = [(''en_attente'', erreur_remediation ''timeout'')]
   \<and> remediation_suggestions
        (db_after (soumettre_reponse (service (Inr ''Note : 2/5'') (Inl ''timeout'')) ecole
                     (session_de 1) formulaire_lea)) = []"
  by code_simp

text \<open>
  C7. Claimed: a text without any score pattern yields 0 together with a flag that
  tells it from a true mark of 0. The block yields the number \<open>etoiles\<close> and nothing
  else: a text without a pattern and the text \<open>Note : 0/5\<close> give the same value, and
  \<open>soumettre_reponse\<close> sends the same prompts, stores the same mark and creates the
  same suggestion for both.
\<close>

theorem unparsed_same_as_zero_counterexample:
  "re_search pattern_sans5_at ''Bon travail'' = None
   \<and> re_search pattern_sur5_at ''Note : 0/5'' = Some (CHR ''0'')
   \<and> extract_score ''Bon travail'' = extract_score ''Note : 0/5''
   \<and> appels_ia (soumettre_reponse (service (Inr ''Bon travail'') (Inr ''Question : 1/4 + 1/4''))
                   ecole (session_de 1) formulaire_lea)
     = appels_ia (soumettre_reponse (service (Inr ''Note : 0/5'') (Inr ''Question : 1/4 + 1/4''))
                   ecole (session_de 1) formulaire_lea)
   \<and> map sr_etoiles
        (student_responses
           (db_after (soumettre_reponse (service (Inr ''Bon travail'') (Inr ''Question : 1/4 + 1/4''))
                        ecole (session_de 1) formulaire_lea)))
     = map sr_etoiles
        (student_responses
           (db_after (soumettre_reponse (service (Inr ''Note : 0/5'') (Inr ''Question : 1/4 + 1/4''))
                        ecole (session_de 1) formulaire_lea)))
   \<and> remediation_suggestions
        (db_after (soumettre_reponse (service (Inr ''Bon travail'') (Inr ''Question : 1/4 + 1/4''))
                     ecole (session_de 1) formulaire_lea))
     = remediation_suggestions
        (db_after (soumettre_reponse (service (Inr ''Note : 0/5'') (Inr ''Question : 1/4 + 1/4''))
                     ecole (session_de 1) formulaire_lea))"
  by code_simp

text \<open>
  C7, as the code has it: for every text in which the fallback pattern matches nowhere,
  the mark is 0 and the console gets the line \<open>Impossible d'extraire la note\<close>; the mark
  handed on is the one \<open>Note : 0/5\<close> gives.
\<close>

theorem unparsed_gives_plain_zero:
  assumes "re_search pattern_sans5_at analyse_ia = None"
  shows "extraction analyse_ia = (0, Impossible_extraire)
       \<and> extract_score analyse_ia = extract_score ''Note : 0/5''"
proof -
  have z: "extract_score ''Note : 0/5'' = 0"
    by (simp add: extract_score_def extraction_def pattern_sur5_at_def
      label_digit_at_def label_at_def lower_def is_space_def is_digit_def int_of_digit_def)
  show ?thesis
    using assms re_search_sur5_None [OF assms] z by (simp add: extraction_def extract_score_def)
qed

theorem unparsed_gives_plain_zero_witness:
  "re_search pattern_sans5_at ''Bon travail'' = None
     \<and> extraction ''Bon travail'' = (0, Impossible_extraire)
     \<and> extract_score ''Bon travail'' = extract_score ''Note : 0/5''"
proof -
  have h: "re_search pattern_sans5_at ''Bon travail'' = None"
    by (simp add: pattern_sans5_at_def label_digit_at_def label_at_def lower_def)
  show ?thesis using h unparsed_gives_plain_zero [OF h] by simp
qed

text \<open>
  C8. Claimed: after every turn of the dialogue, the turn of the failure path included,
  the stored transcript has at most 15 entries. Noe's trial runs. When the generators
  cannot build their client, every turn ends in the handler that appends the apology
  and stores the list uncut: after 7, 8 and 9 questions the transcript has 15, 17 and 19
  entries. With a working service the success path cuts it to 15.
\<close>

theorem transcript_exceeds_cap_on_failure_path:
  "map (\<lambda>n. length (case s_conversation
                        (dialogue textes_exemple
                           ((service (Inr ''Peux-tu calculer la somme ?'') (Inr []))
                              \<lparr>openai_client_error := Some ''OPENAI_API_KEY''\<rparr>)
                           ecole (replicate n ''Comment additionner ?'') (session_de 2)) of
                      None \<Rightarrow> [] | Some c \<Rightarrow> c)) [7, 8, 9]
     = [15, 17, 19]
   \<and> map (\<lambda>n. length (case s_conversation
                        (dialogue textes_exemple
                           (service (Inr ''Peux-tu calculer la somme ?'') (Inr []))
                           ecole (replicate n ''Comment additionner ?'') (session_de 2)) of
                      None \<Rightarrow> [] | Some c \<Rightarrow> c)) [7, 8, 9]
     = [15, 15, 15]"
  by code_simp

text \<open>
  C9. When the number after the label has two digits or more (\<open>Note : 10/5\<close>), and the
  text holds no other occurrence of a label followed by a colon and a digit, the first
  pattern matches nowhere, the fallback pattern matches the first digit, and the mark
  is the smaller of that digit and 5.
\<close>

theorem multi_digit_reads_first_digit:
  assumes "analyse_ia = pre @ l @ ws1 @ '':'' @ ws2 @ d1 # d2 # rest"
    and "is_label l" and "list_all is_space ws1" and "list_all is_space ws2"
    and "is_digit d1" and "is_digit d2"
    and "\<forall>i\<le>length analyse_ia. i \<noteq> length pre \<longrightarrow> pattern_sans5_at (drop i analyse_ia) = None"
  shows "re_search pattern_sur5_at analyse_ia = None
       \<and> re_search pattern_sans5_at analyse_ia = Some d1
       \<and> extract_score analyse_ia = min (int_of_digit d1) 5"
proof -
  let ?s = "l @ ws1 @ '':'' @ ws2 @ d1 # d2 # rest"
  have here: "drop (length pre) analyse_ia = ?s" using assms(1) by simp
  have sans: "pattern_sans5_at ?s = Some d1"
    using label_digit_at_complete [OF assms(2-5), of "d2 # rest"]
    by (simp add: pattern_sans5_at_def)
  have sur: "pattern_sur5_at ?s = None"
    by (rule sur5_two_digits [OF assms(2-6)])
  have 1: "re_search pattern_sur5_at analyse_ia = None"
    unfolding re_search_None_iff
  proof (intro allI impI)
    fix i assume i: "i \<le> length analyse_ia"
    show "pattern_sur5_at (drop i analyse_ia) = None"
    proof (cases "i = length pre")
      case True
      then show ?thesis using here sur by simp
    next
      case False
      with assms(7) i have "pattern_sans5_at (drop i analyse_ia) = None" by blast
      then show ?thesis using sur5_imp_sans5 by (cases "pattern_sur5_at (drop i analyse_ia)") auto
    qed
  qed
  have "\<forall>i<length pre. pattern_sans5_at (drop i (pre @ ?s)) = None"
  proof (intro allI impI)
    fix i assume "i < length pre"
    then have "i \<le> length analyse_ia" "i \<noteq> length pre" using assms(1) by auto
    with assms(7) have "pattern_sans5_at (drop i analyse_ia) = None" by blast
    then show "pattern_sans5_at (drop i (pre @ ?s)) = None" unfolding assms(1) .
  qed
  then have 2: "re_search pattern_sans5_at analyse_ia = Some d1"
    unfolding assms(1) using sans by (rule re_search_leftmost)
  show ?thesis using 1 2 by (simp add: extract_score_def extraction_def)
qed

text \<open>The text \<open>Note : 10/5\<close> gives the mark 1.\<close>

theorem multi_digit_reads_first_digit_witness:
  "re_search pattern_sur5_at ''Note : 10/5'' = None
     \<and> re_search pattern_sans5_at ''Note : 10/5'' = Some (CHR ''1'')
     \<and> extract_score ''Note : 10/5'' = 1"
proof -
  have 1: "''Note : 10/5'' = [] @ ''Note'' @ '' '' @ '':'' @ '' '' @ CHR ''1'' # CHR ''0'' # ''/5''"
    by simp
  have 2: "is_label ''Note''" by (simp add: is_label_def lower_def)
  have 3: "list_all is_space '' ''" by (simp add: is_space_def)
  have 4: "is_digit (CHR ''1'')" "is_digit (CHR ''0'')" by (simp_all add: is_digit_def)
  have r: "re_search pattern_sans5_at ''ote : 10/5'' = None"
    by (simp add: pattern_sans5_at_def label_digit_at_def label_at_def lower_def)
  have 5: "\<forall>i\<le>length ''Note : 10/5''. i \<noteq> length ([]::string) \<longrightarrow>
             pattern_sans5_at (drop i ''Note : 10/5'') = None"
  proof (intro allI impI)
    fix i assume "i \<le> length ''Note : 10/5''" "i \<noteq> length ([]::string)"
    then obtain j where "i = Suc j" "j \<le> length ''ote : 10/5''" by (cases i) auto
    with r [unfolded re_search_None_iff] show "pattern_sans5_at (drop i ''Note : 10/5'') = None"
      by simp
  qed
  show ?thesis
    using multi_digit_reads_first_digit [OF 1 2 3 3 4 5]
    by (simp add: int_of_digit_def)
qed

text \<open>
  C10. Whenever \<open>eleve_remediations\<close> finds the student and commits, every suggestion
  of that student whose status is \<open>valide\<close> has \<open>vue_par_eleve\<close> set and no other
  field changed, every other suggestion is as it was, and so are the other tables and
  the session; no completion is called.
\<close>

theorem listing_marks_validated_seen:
  assumes "find (\<lambda>u. u_username u = username) (users d) = Some eleve"
    and "commit_error ev 0 = None"
  shows "remediation_suggestions (db_after (eleve_remediations ev d sess username)) =
           map (\<lambda>r. if rs_user_id r = u_id eleve \<and> rs_statut r = ''valide''
                     then r\<lparr>rs_vue_par_eleve := True\<rparr> else r)
             (remediation_suggestions d)
       \<and> users (db_after (eleve_remediations ev d sess username)) = users d
       \<and> lecons (db_after (eleve_remediations ev d sess username)) = lecons d
       \<and> exercices (db_after (eleve_remediations ev d sess username)) = exercices d
       \<and> student_responses (db_after (eleve_remediations ev d sess username)) = student_responses d
       \<and> session_after (eleve_remediations ev d sess username) = sess
       \<and> appels_ia (eleve_remediations ev d sess username) = []"
  using assms
  by (simp add: eleve_remediations_def refuse_def Let_def a_marquer_def marquer_vue_def)

text \<open>
  Lea's list: the validated suggestion of Lea is marked, the succeeded one and Noe's
  validated one are not touched.
\<close>

theorem listing_marks_validated_seen_witness:
  "find (\<lambda>u. u_username u = ''lea'') (users ecole_remediations) = Some lea
   \<and> remediation_suggestions
        (db_after (eleve_remediations (service (Inr []) (Inr [])) ecole_remediations (session_de 1)
                     ''lea''))
       = [(suggestion_exemple 1 1 ''valide'')\<lparr>rs_vue_par_eleve := True\<rparr>,
          suggestion_exemple 2 1 ''reussie'', suggestion_exemple 3 2 ''valide'']"
proof -
  have 1: "find (\<lambda>u. u_username u = ''lea'') (users ecole_remediations) = Some lea"
    by code_simp
  have 2: "commit_error (service (Inr []) (Inr [])) 0 = None"
    by (simp add: service_def)
  have 3: "map (\<lambda>r. if rs_user_id r = u_id lea \<and> rs_statut r = ''valide''
                     then r\<lparr>rs_vue_par_eleve := True\<rparr> else r)
             (remediation_suggestions ecole_remediations)
       = [(suggestion_exemple 1 1 ''valide'')\<lparr>rs_vue_par_eleve := True\<rparr>,
          suggestion_exemple 2 1 ''reussie'', suggestion_exemple 3 2 ''valide'']"
    by code_simp
  show ?thesis
    using listing_marks_validated_seen [OF 1 2, of "session_de 1"] 1 3 by simp
qed

end
